theory Spec2Isabelle
  imports Main "HOL-Library.Sublist" "HOL-Library.AList"
begin

section \<open>Python values and exceptions\<close>

text \<open>
  The exceptions the modelled code can raise. A function that can raise returns
  \<open>py_exn + 'a\<close>, with \<open>Inl\<close> for the exception.
\<close>

datatype py_exn =
    IndexError
  | KeyError string
  | TypeError
  | AttributeError
  | ValueError
  | UnboundLocalError
  | DecimalException
  | ClientError string

section \<open>The loader: populate\_ddb\_with\_names.py\<close>

subsection \<open>Packing names into buckets\<close>

type_synonym buckets = "string list list"

text \<open>\<open>name_size = len(name) + 4\<close>, the cost the packing loops charge for a name.\<close>

definition name_size :: "string \<Rightarrow> int" where
  "name_size name = int (length name) + 4"

text \<open>
  The loop of \<open>create_name_buckets\<close> over the remaining \<open>results\<close>, with the
  loop state \<open>buckets\<close>, \<open>current_bucket_idx\<close>, \<open>current_size\<close>. Reaching the end of
  the list and \<open>break\<close> both return the buckets; \<open>buckets[current_bucket_idx]\<close> past the
  end of the list raises \<open>IndexError\<close>.
\<close>

fun name_buckets_loop ::
  "int \<Rightarrow> int \<Rightarrow> (string \<times> int) list \<Rightarrow> buckets \<Rightarrow> nat \<Rightarrow> int \<Rightarrow> py_exn + buckets" where
  "name_buckets_loop max_bucket_size num_buckets [] bs idx sz = Inr bs"
| "name_buckets_loop max_bucket_size num_buckets ((name, cnt) # results) bs idx sz =
     (if sz + name_size name > max_bucket_size
      then (if int (idx + 1) \<ge> num_buckets then Inr bs
            else if idx + 1 < length bs
              then name_buckets_loop max_bucket_size num_buckets results
                     (bs[idx + 1 := bs ! (idx + 1) @ [name]]) (idx + 1) (2 + name_size name)
              else Inl IndexError)
      else if idx < length bs
        then name_buckets_loop max_bucket_size num_buckets results
               (bs[idx := bs ! idx @ [name]]) idx (sz + name_size name)
        else Inl IndexError)"

definition create_name_buckets :: "(string \<times> int) list \<Rightarrow> int \<Rightarrow> int \<Rightarrow> py_exn + buckets" where
  "create_name_buckets results max_bucket_size num_buckets =
     name_buckets_loop max_bucket_size num_buckets results
       (replicate (nat num_buckets) []) 0 2"

text \<open>
  The loop of \<open>create_international_name_buckets\<close>: the same state, over plain
  names, with the \<open>continue\<close> for a name in \<open>existing_names\<close>.
\<close>

fun international_buckets_loop ::
  "string set \<Rightarrow> int \<Rightarrow> int \<Rightarrow> string list \<Rightarrow> buckets \<Rightarrow> nat \<Rightarrow> int \<Rightarrow> py_exn + buckets" where
  "international_buckets_loop existing_names max_bucket_size num_buckets [] bs idx sz = Inr bs"
| "international_buckets_loop existing_names max_bucket_size num_buckets (name # names) bs idx sz =
     (if name \<in> existing_names
      then international_buckets_loop existing_names max_bucket_size num_buckets names bs idx sz
      else if sz + name_size name > max_bucket_size
      then (if int (idx + 1) \<ge> num_buckets then Inr bs
            else if idx + 1 < length bs
              then international_buckets_loop existing_names max_bucket_size num_buckets names
                     (bs[idx + 1 := bs ! (idx + 1) @ [name]]) (idx + 1) (2 + name_size name)
              else Inl IndexError)
      else if idx < length bs
        then international_buckets_loop existing_names max_bucket_size num_buckets names
               (bs[idx := bs ! idx @ [name]]) idx (sz + name_size name)
        else Inl IndexError)"

definition create_international_name_buckets ::
  "string list \<Rightarrow> string set \<Rightarrow> int \<Rightarrow> int \<Rightarrow> py_exn + buckets" where
  "create_international_name_buckets names existing_names max_bucket_size num_buckets =
     international_buckets_loop existing_names max_bucket_size num_buckets names
       (replicate (nat num_buckets) []) 0 2"

text \<open>The size the loader computes for a bucket: 2 for the brackets plus the cost of each name.\<close>

definition bucket_size :: "string list \<Rightarrow> int" where
  "bucket_size b = 2 + sum_list (map name_size b)"

subsection \<open>Text: \<open>str.strip\<close>, \<open>str.split\<close>, \<open>int()\<close>, \<open>str()\<close>\<close>

text \<open>
  Strings are sequences of code points below 256. The white space of \<open>str.strip\<close>
  in that range: tab to carriage return, the separators 28 to 31, space, NEL (133) and
  the no-break space (160).
\<close>

definition is_space :: "char \<Rightarrow> bool" where
  "is_space c = (of_char c \<in> {9, 10, 11, 12, 13, 28, 29, 30, 31, 32, 133, 160 :: nat})"

definition strip :: "string \<Rightarrow> string" where
  "strip s = rev (dropWhile is_space (rev (dropWhile is_space s)))"

text \<open>\<open>s.split(sep)\<close> for a separator of one character: never an empty list.\<close>

fun split_on :: "char \<Rightarrow> string \<Rightarrow> string list" where
  "split_on sep [] = [[]]"
| "split_on sep (c # cs) =
     (if c = sep then [] # split_on sep cs
      else (case split_on sep cs of p # ps \<Rightarrow> (c # p) # ps | [] \<Rightarrow> [[c]]))"

definition is_digit :: "char \<Rightarrow> bool" where
  "is_digit c = (48 \<le> (of_char c :: nat) \<and> (of_char c :: nat) \<le> 57)"

definition digit_val :: "char \<Rightarrow> int" where
  "digit_val c = int (of_char c) - 48"

text \<open>
  The digits of a decimal literal as \<open>int()\<close> reads them: at least one digit, and a
  single underscore allowed between two digits.
\<close>

fun parse_digits :: "string \<Rightarrow> int \<Rightarrow> int option" where
  "parse_digits [] acc = None"
| "parse_digits (c # cs) acc =
     (if \<not> is_digit c then None
      else (case cs of
              [] \<Rightarrow> Some (10 * acc + digit_val c)
            | d # ds \<Rightarrow> if d = CHR ''_'' then parse_digits ds (10 * acc + digit_val c)
                       else parse_digits cs (10 * acc + digit_val c)))"

text \<open>
  The white space \<open>int()\<close> allows around the number: tab to carriage return, space,
  NEL and the no-break space, but not the separators 28 to 31.
\<close>

definition is_int_space :: "char \<Rightarrow> bool" where
  "is_int_space c = (of_char c \<in> {9, 10, 11, 12, 13, 32, 133, 160 :: nat})"

definition int_strip :: "string \<Rightarrow> string" where
  "int_strip s = rev (dropWhile is_int_space (rev (dropWhile is_int_space s)))"

text \<open>
  The digits of a literal after its sign, with the limit of 4300 digits
  (\<open>sys.get_int_max_str_digits()\<close>) that \<open>int()\<close> enforces; underscores do not count.
\<close>

definition parse_unsigned :: "string \<Rightarrow> int option" where
  "parse_unsigned s =
     (if length (filter is_digit s) > 4300 then None else parse_digits s 0)"

text \<open>\<open>int(s)\<close> for a string: \<open>None\<close> stands for \<open>ValueError\<close>.\<close>

definition py_int :: "string \<Rightarrow> int option" where
  "py_int s =
     (case int_strip s of
        [] \<Rightarrow> None
      | c # cs \<Rightarrow>
          if c = CHR ''-'' then map_option uminus (parse_unsigned cs)
          else if c = CHR ''+'' then parse_unsigned cs
          else parse_unsigned (c # cs))"

text \<open>\<open>str(n)\<close> for an integer, as an f-string renders it.\<close>

fun str_nat :: "nat \<Rightarrow> string" where
  "str_nat n =
     (if n < 10 then [''0123456789'' ! n]
      else str_nat (n div 10) @ [''0123456789'' ! (n mod 10)])"

declare str_nat.simps [simp del]

definition str_int :: "int \<Rightarrow> string" where
  "str_int i = (if i < 0 then CHR ''-'' # str_nat (nat (- i)) else str_nat (nat i))"

subsection \<open>Aggregation: \<open>analyze_names\<close>\<close>

text \<open>\<open>parts = line.strip().split(',')\<close>\<close>

definition parts_of :: "string \<Rightarrow> string list" where
  "parts_of line = split_on CHR '','' (strip line)"

text \<open>
  \<open>name_counts[name] += count\<close> on a \<open>defaultdict(int)\<close>, the dictionary as the list
  of its entries in insertion order: a known name is updated in place, a new one is
  appended with \<open>0 + count\<close>.
\<close>

fun add_count :: "(string \<times> int) list \<Rightarrow> string \<Rightarrow> int \<Rightarrow> (string \<times> int) list" where
  "add_count [] name c = [(name, 0 + c)]"
| "add_count ((n, v) # kvs) name c =
     (if n = name then (n, v + c) # kvs else (n, v) # add_count kvs name c)"

text \<open>
  One turn of the loop over the lines of the file, on the state
  \<open>(name_counts, total_name_count)\<close>; each \<open>continue\<close> leaves the state as it is.
\<close>

definition analyze_line ::
  "(string \<times> int) list \<times> int \<Rightarrow> string \<Rightarrow> (string \<times> int) list \<times> int" where
  "analyze_line st line =
     (let parts = parts_of line in
      if length parts \<noteq> 5 then st
      else (case py_int (parts ! 2) of
              None \<Rightarrow> st
            | Some year \<Rightarrow>
                (case py_int (parts ! 4) of
                   None \<Rightarrow> st
                 | Some count \<Rightarrow>
                     if 1955 \<le> year \<and> year \<le> 2010
                     then (add_count (fst st) (parts ! 3) count, snd st + count)
                     else st)))"

text \<open>
  \<open>analyze_names\<close> on the lines of the file. \<open>sorted(..., key=lambda x: x[1],
  reverse=True)\<close> is stable, and so is \<open>sort_key\<close> on the negated count.
\<close>

definition analyze_names :: "string list \<Rightarrow> (string \<times> int) list \<times> int" where
  "analyze_names lines =
     (let st = foldl analyze_line ([], 0) lines
      in (sort_key (\<lambda>x. - snd x) (fst st), snd st))"

subsection \<open>The table \<open>StateNames\<close>\<close>

text \<open>
  JSON values: the Lambda event, the decoded request body, and the key of a read.
  Numbers are integers; an object is the list of its entries, looked up with \<open>map_of\<close>.
\<close>

datatype json =
    JNull
  | JBool bool
  | JNum int
  | JStr string
  | JArr "json list"
  | JObj "(string \<times> json) list"

text \<open>
  Attribute values of an item: a string, a number, a list of strings. An item is the
  list of its attributes in the order the loader writes them.
\<close>

datatype attr = S string | N int | L "string list"

type_synonym item = "(string \<times> attr) list"

datatype request = GetItem json | PutItem string | Scan

text \<open>
  The table: its items by the hash key \<open>State\<close> (in the order a scan returns them), the
  exception every request to the store ends with, if any (a \<open>ClientError\<close> of the
  service, or another exception of the client library such as a lost connection), and
  the log of the requests sent. The table always exists: creating it when it is missing
  gives the empty table.
\<close>

record table =
  rows :: "(string \<times> item) list"
  fault :: "py_exn option"
  log :: "request list"

text \<open>
  The client library turns a number into a decimal of at most 38 digits before it sends
  a request, and raises a \<open>decimal\<close> exception (\<open>Rounded\<close> or \<open>Inexact\<close>) on a
  longer one, inside a list or a dict as well; no request is sent then.
\<close>

fun unserializable :: "json \<Rightarrow> bool" where
  "unserializable (JNum n) = (\<bar>n\<bar> \<ge> 10 ^ 38)"
| "unserializable (JArr xs) = (\<exists>x \<in> set xs. unserializable x)"
| "unserializable (JObj kvs) = (\<exists>x \<in> set (map snd kvs). unserializable x)"
| "unserializable v = False"

fun unserializable_attr :: "attr \<Rightarrow> bool" where
  "unserializable_attr (N n) = (\<bar>n\<bar> \<ge> 10 ^ 38)"
| "unserializable_attr v = False"

text \<open>
  The store refuses a key that is the empty string or longer than 2048 bytes in UTF-8
  (a code point below 128 is one byte, one below 256 two).
\<close>

definition key_bytes :: "string \<Rightarrow> nat" where
  "key_bytes s = sum_list (map (\<lambda>c. if (of_char c :: nat) < 128 then 1 else 2) s)"

definition valid_key :: "string \<Rightarrow> bool" where
  "valid_key s = (s \<noteq> [] \<and> key_bytes s \<le> 2048)"

text \<open>
  \<open>table.get_item(Key={'State': key})\<close>: the item stored under the key, if any, or the
  exception raised (\<open>Inl\<close>). The key attribute is declared of type string, so the
  store refuses any other key with a \<open>ClientError\<close>.
\<close>

definition get_item :: "table \<Rightarrow> json \<Rightarrow> (py_exn + item option) \<times> table" where
  "get_item tbl key =
     (if unserializable key then (Inl DecimalException, tbl)
      else
        ((case fault tbl of
            Some e \<Rightarrow> Inl e
          | None \<Rightarrow>
              (case key of
                 JStr s \<Rightarrow>
                   if valid_key s then Inr (map_of (rows tbl) s)
                   else Inl (ClientError ''ValidationException'')
               | _ \<Rightarrow> Inl (ClientError ''ValidationException''))),
         tbl\<lparr>log := log tbl @ [GetItem key]\<rparr>))"

text \<open>
  \<open>table.put_item(Item=item)\<close>: the item replaces the one stored under its key. The
  limit of the store on the size of an item is not part of the model.
\<close>

definition put_item :: "table \<Rightarrow> item \<Rightarrow> py_exn + table" where
  "put_item tbl item =
     (if \<exists>v \<in> set (map snd item). unserializable_attr v then Inl DecimalException
      else
        (case fault tbl of
           Some e \<Rightarrow> Inl e
         | None \<Rightarrow>
             (case map_of item ''State'' of
                Some (S k) \<Rightarrow>
                  if valid_key k
                  then Inr (tbl\<lparr>rows := AList.update k item (rows tbl),
                                log := log tbl @ [PutItem k]\<rparr>)
                  else Inl (ClientError ''ValidationException'')
              | _ \<Rightarrow> Inl (ClientError ''ValidationException''))))"

text \<open>
  \<open>table.scan()\<close> and \<open>response.get('Items', [])\<close>: every item of the table (the
  store returns the first page of them only).
\<close>

definition scan :: "table \<Rightarrow> (py_exn + item list) \<times> table" where
  "scan tbl =
     ((case fault tbl of
         Some e \<Rightarrow> Inl e
       | None \<Rightarrow> Inr (map snd (rows tbl))),
      tbl\<lparr>log := log tbl @ [Scan]\<rparr>)"

subsection \<open>Scanning, publishing, and the pipeline of one state\<close>

text \<open>
  \<open>existing_names.update(v)\<close>: a list adds its names, a string its characters; a number
  is not iterable (\<open>None\<close> stands for the \<open>TypeError\<close>).
\<close>

fun update_names :: "attr \<Rightarrow> string set \<Rightarrow> string set option" where
  "update_names (L names) acc = Some (acc \<union> set names)"
| "update_names (S s) acc = Some (acc \<union> (\<lambda>c. [c]) ` set s)"
| "update_names (N n) acc = None"

text \<open>
  The two nested loops of \<open>get_all_existing_names\<close>, over the pairs of an item and a
  bucket number in 1..4. An exception ends them; the \<open>except\<close> clause then returns the
  set as it stands.
\<close>

fun existing_names_loop :: "(item \<times> nat) list \<Rightarrow> string set \<Rightarrow> string set" where
  "existing_names_loop [] acc = acc"
| "existing_names_loop ((item, i) # rest) acc =
     (case map_of item (''stateBucket'' @ str_nat i) of
        None \<Rightarrow> existing_names_loop rest acc
      | Some v \<Rightarrow>
          (case update_names v acc of
             None \<Rightarrow> acc
           | Some acc' \<Rightarrow> existing_names_loop rest acc'))"

definition get_all_existing_names :: "table \<Rightarrow> string set \<times> table" where
  "get_all_existing_names tbl =
     (case scan tbl of
        (Inl e, tbl') \<Rightarrow> ({}, tbl')
      | (Inr items, tbl') \<Rightarrow>
          (existing_names_loop (concat (map (\<lambda>item. map (\<lambda>i. (item, i)) [1, 2, 3, 4]) items)) {},
           tbl'))"

text \<open>
  The item \<open>write_to_dynamodb\<close> prepares. \<open>name_buckets[3]\<close> and
  \<open>other_name_buckets[1]\<close> raise \<open>IndexError\<close> on a shorter list; the international
  buckets are added when \<open>other_name_buckets\<close> is neither \<open>None\<close> nor empty.
\<close>

definition state_item ::
  "string \<Rightarrow> buckets \<Rightarrow> int \<Rightarrow> int \<Rightarrow> buckets option \<Rightarrow> py_exn + item" where
  "state_item state name_buckets unique_names_count total_name_count other_name_buckets =
     (if length name_buckets < 4 then Inl IndexError
      else
        (let item =
           [(''State'', S state),
            (''stateBucket1'', L (name_buckets ! 0)),
            (''stateBucket2'', L (name_buckets ! 1)),
            (''stateBucket3'', L (name_buckets ! 2)),
            (''stateBucket4'', L (name_buckets ! 3)),
            (''stateBucket1Count'', N (int (length (name_buckets ! 0)))),
            (''stateBucket2Count'', N (int (length (name_buckets ! 1)))),
            (''stateBucket3Count'', N (int (length (name_buckets ! 2)))),
            (''stateBucket4Count'', N (int (length (name_buckets ! 3)))),
            (''uniqueNamesCount'', N unique_names_count),
            (''totalNameCount'', N total_name_count)]
         in (case other_name_buckets of
               None \<Rightarrow> Inr item
             | Some [] \<Rightarrow> Inr item
             | Some obs \<Rightarrow>
                 if length obs < 2 then Inl IndexError
                 else Inr (item @
                   [(''otherNamesBucket1'', L (obs ! 0)),
                    (''otherNamesBucket2'', L (obs ! 1)),
                    (''otherNamesBucket1Count'', N (int (length (obs ! 0)))),
                    (''otherNamesBucket2Count'', N (int (length (obs ! 1))))]))))"

definition write_to_dynamodb ::
  "string \<Rightarrow> buckets \<Rightarrow> int \<Rightarrow> int \<Rightarrow> buckets option \<Rightarrow> table \<Rightarrow> py_exn + table" where
  "write_to_dynamodb state name_buckets unique_names_count total_name_count other_name_buckets tbl =
     (case state_item state name_buckets unique_names_count total_name_count other_name_buckets of
        Inl e \<Rightarrow> Inl e
      | Inr item \<Rightarrow> put_item tbl item)"

text \<open>\<open>os.path.basename(file_path).split('.')[0]\<close>\<close>

definition state_of_path :: "string \<Rightarrow> string" where
  "state_of_path file_path =
     (case split_on CHR ''.'' (rev (takeWhile (\<lambda>c. c \<noteq> CHR ''/'') (rev file_path))) of
        p # ps \<Rightarrow> p
      | [] \<Rightarrow> [])"

text \<open>
  The block of \<open>process_state_file\<close> that computes \<open>other_name_buckets\<close>: nothing
  without international names; else the scan when no \<open>existing_names\<close> were passed,
  the names of this state's buckets, and the packing of the international names
  against these.
\<close>

definition international_buckets_for ::
  "buckets \<Rightarrow> string list option \<Rightarrow> string set option \<Rightarrow> table
     \<Rightarrow> (py_exn + buckets option) \<times> table" where
  "international_buckets_for name_buckets international_names existing_names tbl =
     (case international_names of
        None \<Rightarrow> (Inr None, tbl)
      | Some [] \<Rightarrow> (Inr None, tbl)
      | Some names \<Rightarrow>
          (let (existing_names', tbl') =
                 (case existing_names of
                    None \<Rightarrow> get_all_existing_names tbl
                  | Some ex \<Rightarrow> (ex, tbl));
               state_names = \<Union> (set ` set name_buckets)
           in (case create_international_name_buckets names state_names 3950 2 of
                 Inl e \<Rightarrow> (Inl e, tbl')
               | Inr obs \<Rightarrow> if length obs < 2 then (Inl IndexError, tbl') else (Inr (Some obs), tbl'))))"

text \<open>\<open>process_state_file\<close>, on the path of the file and its lines.\<close>

definition process_state_file ::
  "string \<Rightarrow> string list \<Rightarrow> string list option \<Rightarrow> string set option \<Rightarrow> table \<Rightarrow> py_exn + table" where
  "process_state_file file_path lines international_names existing_names tbl =
     (let state = state_of_path file_path;
          (results, total_name_count) = analyze_names lines
      in (case create_name_buckets results 3950 4 of
            Inl e \<Rightarrow> Inl e
          | Inr name_buckets \<Rightarrow>
              (case international_buckets_for name_buckets international_names existing_names tbl of
                 (Inl e, tbl') \<Rightarrow> Inl e
               | (Inr other_name_buckets, tbl') \<Rightarrow>
                   write_to_dynamodb state name_buckets (int (length results)) total_name_count
                     other_name_buckets tbl')))"

section \<open>The lookup service\<close>

subsection \<open>Operations on decoded JSON\<close>

text \<open>\<open>not v\<close> is \<open>\<not> truthy v\<close>.\<close>

fun truthy :: "json \<Rightarrow> bool" where
  "truthy JNull = False"
| "truthy (JBool b) = b"
| "truthy (JNum n) = (n \<noteq> 0)"
| "truthy (JStr s) = (s \<noteq> [])"
| "truthy (JArr xs) = (xs \<noteq> [])"
| "truthy (JObj kvs) = (kvs \<noteq> [])"

text \<open>
  \<open>k in v\<close> for a string \<open>k\<close>: a key of a dict, an element of a list, a substring of
  a string, and \<open>TypeError\<close> otherwise.
\<close>

fun py_contains :: "string \<Rightarrow> json \<Rightarrow> py_exn + bool" where
  "py_contains k (JObj kvs) = Inr (map_of kvs k \<noteq> None)"
| "py_contains k (JArr xs) = Inr (JStr k \<in> set xs)"
| "py_contains k (JStr s) = Inr (sublist k s)"
| "py_contains k v = Inl TypeError"

text \<open>\<open>v[k]\<close> for a string \<open>k\<close>: only a dict can be indexed by a string.\<close>

fun py_getitem :: "json \<Rightarrow> string \<Rightarrow> py_exn + json" where
  "py_getitem (JObj kvs) k = (case map_of kvs k of Some x \<Rightarrow> Inr x | None \<Rightarrow> Inl (KeyError k))"
| "py_getitem v k = Inl TypeError"

text \<open>\<open>v.get(k)\<close>: only a dict has the method.\<close>

fun py_get :: "json \<Rightarrow> string \<Rightarrow> py_exn + json" where
  "py_get (JObj kvs) k = Inr (case map_of kvs k of Some x \<Rightarrow> x | None \<Rightarrow> JNull)"
| "py_get v k = Inl AttributeError"

text \<open>\<open>for x in v\<close>: the elements of a list, the keys of a dict, the characters of a string.\<close>

fun py_iter :: "json \<Rightarrow> py_exn + json list" where
  "py_iter (JArr xs) = Inr xs"
| "py_iter (JObj kvs) = Inr (map (\<lambda>kv. JStr (fst kv)) kvs)"
| "py_iter (JStr s) = Inr (map (\<lambda>c. JStr [c]) s)"
| "py_iter v = Inl TypeError"

text \<open>
  \<open>json.loads(v)\<close>, over the decoder \<open>loads\<close> of the standard library, which is a
  parameter of the model (\<open>None\<close> for text that is not JSON): a value that is not a
  string raises \<open>TypeError\<close>, text that does not decode raises a \<open>ValueError\<close>.
\<close>

fun py_loads :: "(string \<Rightarrow> json option) \<Rightarrow> json \<Rightarrow> py_exn + json" where
  "py_loads loads (JStr s) = (case loads s of Some v \<Rightarrow> Inr v | None \<Rightarrow> Inl ValueError)"
| "py_loads loads v = Inl TypeError"

subsection \<open>Responses\<close>

text \<open>
  The error objects \<open>{"error": ...}\<close> of the two handlers, by the message they carry:
  \<^item> \<open>MissingParameters\<close>: Missing required parameters: state and bucket
  \<^item> \<open>BadPrefix\<close>: bucket must start with 'stateBucket' or 'otherNamesBucket'
  \<^item> \<open>StateBucketRange\<close>: For state buckets, number must be between 1 and 4
  \<^item> \<open>StateBucketFormat\<close>: Invalid bucket format. Expected 'stateBucket1' through 'stateBucket4'
  \<^item> \<open>OtherBucketRange\<close>: For other names buckets, number must be between 1 and 2
  \<^item> \<open>OtherBucketFormat\<close>: Invalid bucket format. Expected 'otherNamesBucket1' or 'otherNamesBucket2'
  \<^item> \<open>ErrorParsing e\<close>: Error parsing request: followed by the text of the exception
  \<^item> \<open>StoreError e\<close>: the text of the \<open>ClientError\<close>
  \<^item> \<open>InvalidRequestFormat\<close>: Invalid request format
  \<^item> \<open>BucketNumberRange\<close>: bucketNumber must be an integer between 1 and 5
  \<^item> \<open>MissingParameter k\<close>: Missing required parameter: followed by the key
\<close>

datatype error_obj =
    MissingParameters
  | BadPrefix
  | StateBucketRange
  | StateBucketFormat
  | OtherBucketRange
  | OtherBucketFormat
  | ErrorParsing py_exn
  | StoreError string
  | InvalidRequestFormat
  | BucketNumberRange
  | MissingParameter string

text \<open>What a handler answers with: a stored attribute value (\<open>[]\<close> is \<open>Value (L [])\<close>) or an error object.\<close>

datatype data = Value attr | Error error_obj

text \<open>
  A response is the data itself, or the API Gateway envelope; the \<open>body\<close> of the
  envelope stands for \<open>json.dumps\<close> of the data it holds.
\<close>

datatype response =
    Direct data
  | Envelope (statusCode: int) (headers: "(string \<times> string) list option") (body: data)

text \<open>
  \<open>json.dumps(data)\<close> raises \<open>TypeError\<close> on a stored number, which the table
  returns as a \<open>Decimal\<close>; lists of strings, strings and error objects are encoded.
\<close>

fun dumps_raises :: "data \<Rightarrow> bool" where
  "dumps_raises (Value (N n)) = True"
| "dumps_raises d = False"

text \<open>The headers of the envelope of \<open>format_response\<close>.\<close>

definition cors_headers :: "(string \<times> string) list" where
  "cors_headers =
     [(''Content-Type'', ''application/json''),
      (''Access-Control-Allow-Origin'', ''*''),
      (''Access-Control-Allow-Methods'', ''GET, POST, OPTIONS''),
      (''Access-Control-Allow-Headers'',
       ''Content-Type,X-Amz-Date,Authorization,X-Api-Key,X-Amz-Security-Token'')]"

definition format_response :: "data \<Rightarrow> bool \<Rightarrow> py_exn + response" where
  "format_response d is_api_gateway =
     (if is_api_gateway
      then (if dumps_raises d then Inl TypeError else Inr (Envelope 200 (Some cors_headers) d))
      else Inr (Direct d))"

subsection \<open>lambda\_function.py\<close>

text \<open>What the first part of the \<open>try\<close> block ends with: the return of status 400, or \<open>state\<close> and \<open>bucket\<close>.\<close>

datatype extracted = Invalid400 | Params json json

text \<open>
  The loop over the tool calls: the first one with \<open>arguments\<close> gives \<open>state\<close> and
  \<open>bucket\<close>. With none, both stay unbound and \<open>if not state\<close> raises.
\<close>

fun first_tool_call :: "(string \<Rightarrow> json option) \<Rightarrow> json list \<Rightarrow> py_exn + extracted" where
  "first_tool_call loads [] = Inl UnboundLocalError"
| "first_tool_call loads (tool_call # tool_calls) =
     (case py_contains ''arguments'' tool_call of
        Inl e \<Rightarrow> Inl e
      | Inr False \<Rightarrow> first_tool_call loads tool_calls
      | Inr True \<Rightarrow>
          (case py_getitem tool_call ''arguments'' of
             Inl e \<Rightarrow> Inl e
           | Inr a \<Rightarrow>
               (case py_loads loads a of
                  Inl e \<Rightarrow> Inl e
                | Inr args \<Rightarrow>
                    (case py_get args ''state'' of
                       Inl e \<Rightarrow> Inl e
                     | Inr state \<Rightarrow>
                         (case py_get args ''bucket'' of
                            Inl e \<Rightarrow> Inl e
                          | Inr bucket \<Rightarrow> Inr (Params state bucket))))))"

text \<open>\<open>'args' in body and isinstance(body['args'], dict)\<close>\<close>

definition args_shape :: "json \<Rightarrow> py_exn + bool" where
  "args_shape req_body =
     (case py_contains ''args'' req_body of
        Inl e \<Rightarrow> Inl e
      | Inr False \<Rightarrow> Inr False
      | Inr True \<Rightarrow>
          (case py_getitem req_body ''args'' of
             Inl e \<Rightarrow> Inl e
           | Inr (JObj kvs) \<Rightarrow> Inr True
           | Inr v \<Rightarrow> Inr False))"

text \<open>\<open>'call' in body and 'transcript_with_tool_calls' in body['call']\<close>\<close>

definition tool_call_shape :: "json \<Rightarrow> py_exn + bool" where
  "tool_call_shape req_body =
     (case py_contains ''call'' req_body of
        Inl e \<Rightarrow> Inl e
      | Inr False \<Rightarrow> Inr False
      | Inr True \<Rightarrow>
          (case py_getitem req_body ''call'' of
             Inl e \<Rightarrow> Inl e
           | Inr call \<Rightarrow> py_contains ''transcript_with_tool_calls'' call))"

text \<open>The \<open>if\<close>/\<open>elif\<close>/\<open>else\<close> on the decoded body (\<open>body\<close> in the source).\<close>

definition extract_body :: "(string \<Rightarrow> json option) \<Rightarrow> json \<Rightarrow> py_exn + extracted" where
  "extract_body loads req_body =
     (case args_shape req_body of
        Inl e \<Rightarrow> Inl e
      | Inr True \<Rightarrow>
          (case py_getitem req_body ''args'' of
             Inl e \<Rightarrow> Inl e
           | Inr args \<Rightarrow>
               (case py_get args ''state'' of
                  Inl e \<Rightarrow> Inl e
                | Inr state \<Rightarrow>
                    (case py_get args ''bucket'' of
                       Inl e \<Rightarrow> Inl e
                     | Inr bucket \<Rightarrow> Inr (Params state bucket))))
      | Inr False \<Rightarrow>
          (case tool_call_shape req_body of
             Inl e \<Rightarrow> Inl e
           | Inr True \<Rightarrow>
               (case py_getitem req_body ''call'' of
                  Inl e \<Rightarrow> Inl e
                | Inr call \<Rightarrow>
                    (case py_getitem call ''transcript_with_tool_calls'' of
                       Inl e \<Rightarrow> Inl e
                     | Inr calls \<Rightarrow>
                         (case py_iter calls of
                            Inl e \<Rightarrow> Inl e
                          | Inr tool_calls \<Rightarrow> first_tool_call loads tool_calls)))
           | Inr False \<Rightarrow> Inr Invalid400))"

text \<open>\<open>isinstance(event, dict) and 'body' in event\<close>\<close>

definition is_api_gateway_event :: "json \<Rightarrow> bool" where
  "is_api_gateway_event event =
     (case event of JObj kvs \<Rightarrow> map_of kvs ''body'' \<noteq> None | _ \<Rightarrow> False)"

text \<open>The body of an API Gateway event, decoded when it is a string.\<close>

definition decoded_body :: "(string \<Rightarrow> json option) \<Rightarrow> json \<Rightarrow> py_exn + json" where
  "decoded_body loads event =
     (case py_getitem event ''body'' of
        Inl e \<Rightarrow> Inl e
      | Inr (JStr s) \<Rightarrow> py_loads loads (JStr s)
      | Inr b \<Rightarrow> Inr b)"

text \<open>The extraction of \<open>state\<close> and \<open>bucket\<close> from the event, in either shape.\<close>

definition extract_params :: "(string \<Rightarrow> json option) \<Rightarrow> json \<Rightarrow> py_exn + extracted" where
  "extract_params loads event =
     (if is_api_gateway_event event
      then (case decoded_body loads event of
              Inl e \<Rightarrow> Inl e
            | Inr req_body \<Rightarrow> extract_body loads req_body)
      else (case py_get event ''state'' of
              Inl e \<Rightarrow> Inl e
            | Inr state \<Rightarrow>
                (case py_get event ''bucket'' of
                   Inl e \<Rightarrow> Inl e
                 | Inr bucket \<Rightarrow> Inr (Params state bucket))))"

text \<open>
  The validation of \<open>state\<close> and \<open>bucket\<close>: the error object to return, if any.
  \<open>bucket.startswith\<close> on a value that is not a string raises \<open>AttributeError\<close>.
\<close>

definition validate :: "json \<Rightarrow> json \<Rightarrow> py_exn + error_obj option" where
  "validate state bucket =
     (if \<not> truthy state \<or> \<not> truthy bucket then Inr (Some MissingParameters)
      else (case bucket of
              JStr b \<Rightarrow>
                if \<not> (prefix ''stateBucket'' b \<or> prefix ''otherNamesBucket'' b)
                then Inr (Some BadPrefix)
                else if prefix ''stateBucket'' b
                then (case py_int (drop (length ''stateBucket'') b) of
                        None \<Rightarrow> Inr (Some StateBucketFormat)
                      | Some bucket_number \<Rightarrow>
                          if bucket_number < 1 \<or> bucket_number > 4
                          then Inr (Some StateBucketRange) else Inr None)
                else if prefix ''otherNamesBucket'' b
                then (case py_int (drop (length ''otherNamesBucket'') b) of
                        None \<Rightarrow> Inr (Some OtherBucketFormat)
                      | Some bucket_number \<Rightarrow>
                          if bucket_number < 1 \<or> bucket_number > 2
                          then Inr (Some OtherBucketRange) else Inr None)
                else Inr None
            | _ \<Rightarrow> Inl AttributeError))"

text \<open>
  The query of the table, once \<open>state\<close> and \<open>bucket\<close> are validated: the data to
  answer with. Only a \<open>ClientError\<close> is caught; any other exception leaves the handler.
\<close>

definition query :: "json \<Rightarrow> json \<Rightarrow> table \<Rightarrow> (py_exn + data) \<times> table" where
  "query state bucket tbl =
     (case get_item tbl state of
        (Inl (ClientError e), tbl') \<Rightarrow> (Inr (Error (StoreError e)), tbl')
      | (Inl e, tbl') \<Rightarrow> (Inl e, tbl')
      | (Inr None, tbl') \<Rightarrow> (Inr (Value (L [])), tbl')
      | (Inr (Some item), tbl') \<Rightarrow>
          (case bucket of
             JStr b \<Rightarrow>
               (case map_of item b of
                  Some v \<Rightarrow> (Inr (Value v), tbl')
                | None \<Rightarrow> (Inr (Value (L [])), tbl'))
           | _ \<Rightarrow> (Inr (Value (L [])), tbl')))"

text \<open>
  \<open>lambda_handler\<close> of lambda\_function.py: the response, or the exception that
  leaves the handler (\<open>Inl\<close>), and the table after it.
\<close>

definition lambda_handler ::
  "(string \<Rightarrow> json option) \<Rightarrow> json \<Rightarrow> table \<Rightarrow> (py_exn + response) \<times> table" where
  "lambda_handler loads event tbl =
     (let is_api_gateway = is_api_gateway_event event in
      case extract_params loads event of
        Inl e \<Rightarrow> (format_response (Error (ErrorParsing e)) is_api_gateway, tbl)
      | Inr Invalid400 \<Rightarrow> (Inr (Envelope 400 None (Error InvalidRequestFormat)), tbl)
      | Inr (Params state bucket) \<Rightarrow>
          (case validate state bucket of
             Inl e \<Rightarrow> (format_response (Error (ErrorParsing e)) is_api_gateway, tbl)
           | Inr (Some err) \<Rightarrow> (format_response (Error err) is_api_gateway, tbl)
           | Inr None \<Rightarrow>
               (case query state bucket tbl of
                  (Inl e, tbl') \<Rightarrow> (Inl e, tbl')
                | (Inr d, tbl') \<Rightarrow> (format_response d is_api_gateway, tbl'))))"

subsection \<open>get\_state\_names\_lambda.py\<close>

text \<open>
  \<open>isinstance(v, int)\<close> with the value as an integer (\<open>True\<close> is 1, \<open>False\<close> is 0),
  and the text an f-string renders the value with.
\<close>

fun int_value :: "json \<Rightarrow> int option" where
  "int_value (JNum n) = Some n"
| "int_value (JBool b) = Some (if b then 1 else 0)"
| "int_value v = None"

fun format_value :: "json \<Rightarrow> string" where
  "format_value (JNum n) = str_int n"
| "format_value (JBool b) = (if b then ''True'' else ''False'')"
| "format_value v = []"

text \<open>
  \<open>lambda_handler\<close> of get\_state\_names\_lambda.py. Only \<open>KeyError\<close> is caught around
  the reading of the parameters and only \<open>ClientError\<close> around the query; any other
  exception leaves the handler.
\<close>

definition get_state_names_lambda_handler :: "json \<Rightarrow> table \<Rightarrow> (py_exn + data) \<times> table" where
  "get_state_names_lambda_handler event tbl =
     (case py_getitem event ''state'' of
        Inl (KeyError k) \<Rightarrow> (Inr (Error (MissingParameter k)), tbl)
      | Inl e \<Rightarrow> (Inl e, tbl)
      | Inr state \<Rightarrow>
          (case py_getitem event ''bucketNumber'' of
             Inl (KeyError k) \<Rightarrow> (Inr (Error (MissingParameter k)), tbl)
           | Inl e \<Rightarrow> (Inl e, tbl)
           | Inr bucket_number \<Rightarrow>
               (case int_value bucket_number of
                  None \<Rightarrow> (Inr (Error BucketNumberRange), tbl)
                | Some n \<Rightarrow>
                    if n < 1 \<or> n > 5 then (Inr (Error BucketNumberRange), tbl)
                    else
                      (case get_item tbl state of
                         (Inl (ClientError e), tbl') \<Rightarrow> (Inr (Error (StoreError e)), tbl')
                       | (Inl e, tbl') \<Rightarrow> (Inl e, tbl')
                       | (Inr None, tbl') \<Rightarrow> (Inr (Value (L [])), tbl')
                       | (Inr (Some item), tbl') \<Rightarrow>
                           (case map_of item (''nameBucket'' @ format_value bucket_number) of
                              Some v \<Rightarrow> (Inr (Value v), tbl')
                            | None \<Rightarrow> (Inr (Value (L [])), tbl'))))))"

subsection \<open>Example data\<close>

text \<open>
  The record of Ohio for the two lines \<open>OH,F,1960,Mary,10\<close> and \<open>OH,M,2000,John,12\<close>
  and the international names Yuki and John, as the examples below compute it.
\<close>

abbreviation oh_item :: item where
  "oh_item \<equiv>
     [(''State'', S ''OH''),
      (''stateBucket1'', L [''John'', ''Mary'']),
      (''stateBucket2'', L []),
      (''stateBucket3'', L []),
      (''stateBucket4'', L []),
      (''stateBucket1Count'', N 2),
      (''stateBucket2Count'', N 0),
      (''stateBucket3Count'', N 0),
      (''stateBucket4Count'', N 0),
      (''uniqueNamesCount'', N 2),
      (''totalNameCount'', N 22),
      (''otherNamesBucket1'', L [''Yuki'']),
      (''otherNamesBucket2'', L []),
      (''otherNamesBucket1Count'', N 1),
      (''otherNamesBucket2Count'', N 0)]"

section \<open>Properties of packing\<close>

lemma international_loop_filter:
  "international_buckets_loop ex m k names bs idx sz =
   name_buckets_loop m k (map (\<lambda>n. (n, c n)) (filter (\<lambda>n. n \<notin> ex) names)) bs idx sz"
  by (induction names arbitrary: bs idx sz) simp_all

lemma concat_append_at:
  assumes "i < length bs" and "\<forall>j. i < j \<and> j < length bs \<longrightarrow> bs ! j = []"
  shows "concat (bs[i := bs ! i @ [x]]) = concat bs @ [x]"
proof -
  have tl0: "concat (drop (Suc i) bs) = []"
    using assms(2) by (auto simp: in_set_conv_nth)
  have "bs = take i bs @ bs ! i # drop (Suc i) bs"
    using assms(1) by (simp add: id_take_nth_drop)
  then have c: "concat bs = concat (take i bs) @ bs ! i @ concat (drop (Suc i) bs)"
    by (metis concat.simps(2) concat_append)
  have "bs[i := bs ! i @ [x]] = take i bs @ (bs ! i @ [x]) # drop (Suc i) bs"
    using assms(1) by (simp add: upd_conv_take_nth_drop)
  then have "concat (bs[i := bs ! i @ [x]]) = concat (take i bs) @ (bs ! i @ [x]) @ concat (drop (Suc i) bs)"
    by simp
  with c tl0 show ?thesis by simp
qed

lemma bucket_size_snoc: "bucket_size (b @ [n]) = bucket_size b + name_size n"
  by (simp add: bucket_size_def)

lemma name_buckets_loop_prefix:
  assumes "idx < length bs" and "length bs = nat k"
    and "\<forall>j. idx < j \<and> j < length bs \<longrightarrow> bs ! j = []"
    and "sz = bucket_size (bs ! idx)"
  shows "\<exists>bs' rest. name_buckets_loop m k rs bs idx sz = Inr bs' \<and> length bs' = length bs
           \<and> concat bs @ map fst rs = concat bs' @ rest
           \<and> (rest \<noteq> [] \<longrightarrow> bucket_size (last bs') + name_size (hd rest) > m)"
  using assms
proof (induction rs arbitrary: bs idx sz)
  case Nil
  then show ?case by simp
next
  case (Cons r rs)
  obtain name cnt where r: "r = (name, cnt)" by (cases r)
  show ?case
  proof (cases "sz + name_size name > m")
    case over: True
    show ?thesis
    proof (cases "int (idx + 1) \<ge> k")
      case True
      with Cons.prems have "idx = length bs - 1" by linarith
      with Cons.prems have "last bs = bs ! idx"
        by (metis last_conv_nth length_0_conv not_less_zero)
      with over True Cons.prems r show ?thesis by auto
    next
      case False
      with Cons.prems have lt: "idx + 1 < length bs" by linarith
      let ?bs = "bs[idx + 1 := bs ! (idx + 1) @ [name]]"
      have e: "bs ! (idx + 1) = []" using Cons.prems(3) lt by simp
      have "\<exists>bs' rest. name_buckets_loop m k rs ?bs (idx + 1) (2 + name_size name) = Inr bs'
              \<and> length bs' = length ?bs \<and> concat ?bs @ map fst rs = concat bs' @ rest
              \<and> (rest \<noteq> [] \<longrightarrow> bucket_size (last bs') + name_size (hd rest) > m)"
      proof (rule Cons.IH)
        show "idx + 1 < length ?bs" using lt by simp
        show "length ?bs = nat k" using Cons.prems by simp
        show "\<forall>j. idx + 1 < j \<and> j < length ?bs \<longrightarrow> ?bs ! j = []"
          using Cons.prems(3) by simp
        show "2 + name_size name = bucket_size (?bs ! (idx + 1))"
          using lt e by (simp add: bucket_size_def)
      qed
      moreover have "concat ?bs = concat bs @ [name]"
        using lt Cons.prems(3) by (intro concat_append_at) auto
      ultimately show ?thesis using over False lt r by auto
    qed
  next
    case fit: False
    let ?bs = "bs[idx := bs ! idx @ [name]]"
    have "\<exists>bs' rest. name_buckets_loop m k rs ?bs idx (sz + name_size name) = Inr bs'
            \<and> length bs' = length ?bs \<and> concat ?bs @ map fst rs = concat bs' @ rest
            \<and> (rest \<noteq> [] \<longrightarrow> bucket_size (last bs') + name_size (hd rest) > m)"
    proof (rule Cons.IH)
      show "idx < length ?bs" using Cons.prems by simp
      show "length ?bs = nat k" using Cons.prems by simp
      show "\<forall>j. idx < j \<and> j < length ?bs \<longrightarrow> ?bs ! j = []"
        using Cons.prems(3) by simp
      show "sz + name_size name = bucket_size (?bs ! idx)"
        using Cons.prems by (simp add: bucket_size_snoc)
    qed
    moreover have "concat ?bs = concat bs @ [name]"
      using Cons.prems by (intro concat_append_at) auto
    ultimately show ?thesis using fit Cons.prems(1) r by auto
  qed
qed

lemma set_concat_update:
  "i < length bs \<Longrightarrow> set (concat (bs[i := bs ! i @ [x]])) \<subseteq> insert x (set (concat bs))"
proof -
  assume "i < length bs"
  have "set (bs[i := bs ! i @ [x]]) \<subseteq> insert (bs ! i @ [x]) (set bs)"
    by (rule set_update_subset_insert)
  moreover have "bs ! i \<in> set bs" using \<open>i < length bs\<close> by simp
  ultimately show ?thesis by fastforce
qed

lemma name_buckets_loop_names:
  "name_buckets_loop m k rs bs idx sz = Inr bs' \<Longrightarrow>
   set (concat bs') \<subseteq> set (concat bs) \<union> fst ` set rs"
proof (induction rs arbitrary: bs idx sz)
  case Nil
  then show ?case by simp
next
  case (Cons r rs)
  obtain name cnt where r: "r = (name, cnt)" by (cases r)
  show ?case
  proof (cases "sz + name_size name > m")
    case True
    show ?thesis
    proof (cases "int (idx + 1) \<ge> k")
      case True
      with \<open>sz + name_size name > m\<close> Cons.prems r show ?thesis by auto
    next
      case False
      with True Cons.prems r have lt: "idx + 1 < length bs"
        and run: "name_buckets_loop m k rs (bs[idx + 1 := bs ! (idx + 1) @ [name]]) (idx + 1)
                    (2 + name_size name) = Inr bs'"
        by (auto split: if_splits)
      from Cons.IH [OF run] set_concat_update [OF lt, of name] r show ?thesis by auto
    qed
  next
    case False
    with Cons.prems r have lt: "idx < length bs"
      and run: "name_buckets_loop m k rs (bs[idx := bs ! idx @ [name]]) idx
                  (sz + name_size name) = Inr bs'"
      by (auto split: if_splits)
    from Cons.IH [OF run] set_concat_update [OF lt, of name] r show ?thesis by auto
  qed
qed

lemma name_buckets_loop_budget:
  assumes "idx < length bs" and "length bs = nat k"
    and "\<forall>j. idx < j \<and> j < length bs \<longrightarrow> bs ! j = []"
    and "sz = bucket_size (bs ! idx)"
    and "\<forall>b \<in> set bs. bucket_size b \<le> m"
    and "\<forall>r \<in> set rs. 2 + name_size (fst r) \<le> m"
    and "name_buckets_loop m k rs bs idx sz = Inr bs'"
  shows "\<forall>b \<in> set bs'. bucket_size b \<le> m"
  using assms
proof (induction rs arbitrary: bs idx sz)
  case Nil
  then show ?case by simp
next
  case (Cons r rs)
  obtain name cnt where r: "r = (name, cnt)" by (cases r)
  have fits: "2 + name_size name \<le> m" using Cons.prems(6) r by simp
  show ?case
  proof (cases "sz + name_size name > m")
    case over: True
    show ?thesis
    proof (cases "int (idx + 1) \<ge> k")
      case True
      with over Cons.prems r show ?thesis by auto
    next
      case False
      with Cons.prems have lt: "idx + 1 < length bs" by linarith
      let ?bs = "bs[idx + 1 := bs ! (idx + 1) @ [name]]"
      have e: "bs ! (idx + 1) = []" using Cons.prems(3) lt by simp
      have run: "name_buckets_loop m k rs ?bs (idx + 1) (2 + name_size name) = Inr bs'"
        using over False lt r Cons.prems(7) by simp
      show ?thesis
      proof (rule Cons.IH [OF _ _ _ _ _ _ run])
        show "idx + 1 < length ?bs" using lt by simp
        show "length ?bs = nat k" using Cons.prems by simp
        show "\<forall>j. idx + 1 < j \<and> j < length ?bs \<longrightarrow> ?bs ! j = []"
          using Cons.prems(3) by simp
        show "2 + name_size name = bucket_size (?bs ! (idx + 1))"
          using lt e by (simp add: bucket_size_def)
        show "\<forall>b \<in> set ?bs. bucket_size b \<le> m"
        proof
          fix b assume "b \<in> set ?bs"
          then have "b = bs ! (idx + 1) @ [name] \<or> b \<in> set bs"
            using set_update_subset_insert [of bs "idx + 1"] by auto
          then show "bucket_size b \<le> m"
            using e fits Cons.prems(5) by (auto simp: bucket_size_def)
        qed
        show "\<forall>r \<in> set rs. 2 + name_size (fst r) \<le> m" using Cons.prems(6) by simp
      qed
    qed
  next
    case fit: False
    let ?bs = "bs[idx := bs ! idx @ [name]]"
    have run: "name_buckets_loop m k rs ?bs idx (sz + name_size name) = Inr bs'"
      using fit r Cons.prems(1,7) by simp
    show ?thesis
    proof (rule Cons.IH [OF _ _ _ _ _ _ run])
      show "idx < length ?bs" using Cons.prems by simp
      show "length ?bs = nat k" using Cons.prems by simp
      show "\<forall>j. idx < j \<and> j < length ?bs \<longrightarrow> ?bs ! j = []"
        using Cons.prems(3) by simp
      show "sz + name_size name = bucket_size (?bs ! idx)"
        using Cons.prems by (simp add: bucket_size_snoc)
      show "\<forall>b \<in> set ?bs. bucket_size b \<le> m"
      proof
        fix b assume "b \<in> set ?bs"
        then have "b = bs ! idx @ [name] \<or> b \<in> set bs"
          using set_update_subset_insert [of bs idx] by auto
        then show "bucket_size b \<le> m"
          using fit Cons.prems(4,5) by (auto simp: bucket_size_snoc)
      qed
      show "\<forall>r \<in> set rs. 2 + name_size (fst r) \<le> m" using Cons.prems(6) by simp
    qed
  qed
qed

lemma replicate_4: "replicate 4 x = [x, x, x, x]"
  by (simp add: numeral_eq_Suc)

lemma replicate_2: "replicate 2 x = [x, x]"
  by (simp add: numeral_eq_Suc)

lemma concat_replicate_empty: "concat (replicate n ([]::string list)) = []"
  by (induction n) simp_all

lemma create_name_buckets_total:
  assumes "0 < k"
  shows "\<exists>bs rest. create_name_buckets rs m k = Inr bs \<and> length bs = nat k
           \<and> map fst rs = concat bs @ rest
           \<and> (rest \<noteq> [] \<longrightarrow> bucket_size (last bs) + name_size (hd rest) > m)"
proof -
  let ?bs = "replicate (nat k) ([]::string list)"
  have "\<exists>bs' rest. name_buckets_loop m k rs ?bs 0 2 = Inr bs' \<and> length bs' = length ?bs
           \<and> concat ?bs @ map fst rs = concat bs' @ rest
           \<and> (rest \<noteq> [] \<longrightarrow> bucket_size (last bs') + name_size (hd rest) > m)"
  proof (rule name_buckets_loop_prefix)
    show "0 < length ?bs" using assms by simp
    show "length ?bs = nat k" by simp
    show "\<forall>j. 0 < j \<and> j < length ?bs \<longrightarrow> ?bs ! j = []" by simp
    show "2 = bucket_size (?bs ! 0)" using assms by (simp add: bucket_size_def)
  qed
  then show ?thesis
    by (simp add: create_name_buckets_def concat_replicate_empty)
qed

lemma create_name_buckets_no_buckets:
  assumes "k \<le> 0" and "create_name_buckets rs m k = Inr bs"
  shows "bs = []"
  using assms by (cases rs) (auto simp: create_name_buckets_def split: if_splits)

text \<open>
  Provided every name fits into an empty bucket (and so does the empty list), every
  bucket of \<open>create_name_buckets\<close> is within the budget.
\<close>

lemma create_name_buckets_budget:
  assumes "2 \<le> m" and "\<forall>r \<in> set rs. 2 + name_size (fst r) \<le> m"
    and "create_name_buckets rs m k = Inr bs"
  shows "\<forall>b \<in> set bs. bucket_size b \<le> m"
proof (cases "0 < k")
  case True
  let ?bs = "replicate (nat k) ([]::string list)"
  have run: "name_buckets_loop m k rs ?bs 0 2 = Inr bs"
    using assms(3) by (simp add: create_name_buckets_def)
  show ?thesis
  proof (rule name_buckets_loop_budget [OF _ _ _ _ _ assms(2) run])
    show "0 < length ?bs" using True by simp
    show "length ?bs = nat k" by simp
    show "\<forall>j. 0 < j \<and> j < length ?bs \<longrightarrow> ?bs ! j = []" by simp
    show "2 = bucket_size (?bs ! 0)" using True by (simp add: bucket_size_def)
    show "\<forall>b \<in> set ?bs. bucket_size b \<le> m" using assms(1) by (simp add: bucket_size_def)
  qed
next
  case False
  then have "bs = []" using create_name_buckets_no_buckets [OF _ assms(3)] by simp
  then show ?thesis by simp
qed

lemma create_international_name_buckets_filter:
  "create_international_name_buckets names ex m k =
   create_name_buckets (map (\<lambda>n. (n, c n)) (filter (\<lambda>n. n \<notin> ex) names)) m k"
  by (simp add: create_international_name_buckets_def create_name_buckets_def
      international_loop_filter [of ex m k names _ _ _ c])

lemma create_name_buckets_names:
  assumes "create_name_buckets rs m k = Inr bs"
  shows "set (concat bs) \<subseteq> fst ` set rs"
  using name_buckets_loop_names [of m k rs "replicate (nat k) []" 0 2 bs] assms
  by (simp add: create_name_buckets_def concat_replicate_empty)

section \<open>Properties of aggregation\<close>

lemma sum_add_count: "sum_list (map snd (add_count kvs n c)) = sum_list (map snd kvs) + c"
  by (induction kvs n c rule: add_count.induct) simp_all

lemma keys_add_count: "fst ` set (add_count kvs n c) = insert n (fst ` set kvs)"
  by (induction kvs n c rule: add_count.induct) auto

lemma distinct_add_count:
  "distinct (map fst kvs) \<Longrightarrow> distinct (map fst (add_count kvs n c))"
proof (induction kvs n c rule: add_count.induct)
  case (1 name c)
  then show ?case by simp
next
  case (2 n v kvs name c)
  then show ?case
    using keys_add_count [of kvs name c] by (auto simp: image_iff)
qed

lemma analyze_line_inv:
  assumes "sum_list (map snd (fst st)) = snd st \<and> distinct (map fst (fst st))"
  shows "sum_list (map snd (fst (analyze_line st l))) = snd (analyze_line st l)
         \<and> distinct (map fst (fst (analyze_line st l)))"
  using assms
  by (auto simp: analyze_line_def Let_def sum_add_count distinct_add_count split: option.splits)

lemma foldl_analyze_inv:
  assumes "sum_list (map snd (fst st)) = snd st \<and> distinct (map fst (fst st))"
  shows "sum_list (map snd (fst (foldl analyze_line st ls))) = snd (foldl analyze_line st ls)
         \<and> distinct (map fst (fst (foldl analyze_line st ls)))"
  using assms
proof (induction ls arbitrary: st)
  case Nil
  then show ?case by simp
next
  case (Cons l ls)
  from Cons.IH [OF analyze_line_inv [OF Cons.prems, of l]] show ?case by simp
qed

lemma sum_insort_key:
  "sum_list (map g (insort_key f x xs)) = g x + sum_list (map g xs)"
  for g :: "'a \<Rightarrow> int" and f :: "'a \<Rightarrow> int"
  by (induction xs) simp_all

lemma sum_sort_key: "sum_list (map g (sort_key f xs)) = sum_list (map g xs)"
  for g :: "'a \<Rightarrow> int" and f :: "'a \<Rightarrow> int"
  by (induction xs) (simp_all add: sum_insort_key)

lemma distinct_keys_sort_key:
  "distinct (map g (sort_key f xs)) = distinct (map g xs)" for f :: "'a \<Rightarrow> int"
  by (simp add: distinct_map)

lemma sorted_desc_sort_key:
  "sorted_wrt (\<lambda>a b. snd a \<ge> snd b) (sort_key (\<lambda>x. - snd x) kvs)"
  for kvs :: "(string \<times> int) list"
proof -
  have "sorted (map (\<lambda>x. - snd x) (sort_key (\<lambda>x. - snd x) kvs))"
    by (rule sorted_sort_key)
  then show ?thesis by (simp add: sorted_map)
qed

lemma analyze_line_skip:
  assumes "length (parts_of l) \<noteq> 5 \<or> py_int (parts_of l ! 2) = None
           \<or> py_int (parts_of l ! 4) = None
           \<or> (\<exists>y. py_int (parts_of l ! 2) = Some y \<and> (y < 1955 \<or> 2010 < y))"
  shows "analyze_line st l = st"
  using assms by (auto simp: analyze_line_def Let_def split: option.splits)

lemma analyze_names_skip:
  assumes "analyze_line (foldl analyze_line ([], 0) xs) l = foldl analyze_line ([], 0) xs"
  shows "analyze_names (xs @ l # ys) = analyze_names (xs @ ys)"
  using assms by (simp add: analyze_names_def)

lemma analyze_names_inv:
  "sum_list (map snd (fst (analyze_names lines))) = snd (analyze_names lines)"
  "sorted_wrt (\<lambda>a b. snd a \<ge> snd b) (fst (analyze_names lines))"
  "distinct (map fst (fst (analyze_names lines)))"
proof -
  have "sum_list (map snd (fst (foldl analyze_line ([], 0) lines)))
          = snd (foldl analyze_line ([], 0) lines)
        \<and> distinct (map fst (fst (foldl analyze_line ([], 0) lines)))"
    by (rule foldl_analyze_inv) simp
  then show "sum_list (map snd (fst (analyze_names lines))) = snd (analyze_names lines)"
    and "distinct (map fst (fst (analyze_names lines)))"
    by (simp_all add: analyze_names_def Let_def sum_sort_key distinct_keys_sort_key)
  show "sorted_wrt (\<lambda>a b. snd a \<ge> snd b) (fst (analyze_names lines))"
    by (simp add: analyze_names_def Let_def sorted_desc_sort_key)
qed

section \<open>Properties of the table and the handlers\<close>

lemma str_nat_small:
  "str_nat 1 = ''1''" "str_nat 2 = ''2''" "str_nat 3 = ''3''" "str_nat 4 = ''4''"
  "str_nat 5 = ''5''" "str_nat (Suc 0) = ''1''"
  by (simp_all add: str_nat.simps)

lemmas int_defs =
  py_int_def parse_unsigned_def int_strip_def is_int_space_def is_digit_def digit_val_def

lemma py_int_small:
  "py_int ''1'' = Some 1" "py_int ''2'' = Some 2" "py_int ''3'' = Some 3" "py_int ''4'' = Some 4"
  "py_int ''5'' = Some 5"
  by (simp_all add: int_defs)

text \<open>The separators 28 to 31 are stripped from a line, but are not part of a number.\<close>

lemma py_int_separator:
  "py_int [CHR 0x1C, CHR ''1'', CHR ''9'', CHR ''6'', CHR ''0''] = None"
  "py_int [CHR 0x1F, CHR ''1''] = None"
  "strip [CHR 0x1C, CHR ''1'', CHR 0x1F] = ''1''"
  by (simp_all add: int_defs strip_def is_space_def)

text \<open>A literal of 4301 digits is refused.\<close>

lemma py_int_digit_limit:
  "py_int (CHR ''1'' # replicate 4300 CHR ''1'') = None"
  by (simp add: int_defs)

lemma extract_params_direct:
  "map_of kvs ''body'' = None \<Longrightarrow>
   extract_params loads (JObj kvs) =
     Inr (Params (case map_of kvs ''state'' of Some x \<Rightarrow> x | None \<Rightarrow> JNull)
                 (case map_of kvs ''bucket'' of Some x \<Rightarrow> x | None \<Rightarrow> JNull))"
  by (simp add: extract_params_def is_api_gateway_event_def)

lemma validate_missing:
  "\<not> truthy state \<or> \<not> truthy bucket \<Longrightarrow> validate state bucket = Inr (Some MissingParameters)"
  by (auto simp: validate_def)

lemma validate_bad_prefix:
  assumes "truthy state" and "b \<noteq> []"
    and "\<not> prefix ''stateBucket'' b" and "\<not> prefix ''otherNamesBucket'' b"
  shows "validate state (JStr b) = Inr (Some BadPrefix)"
  using assms by (simp add: validate_def)

lemma validate_state_range:
  assumes "truthy state" and "py_int sfx = Some n" and "n < 1 \<or> 4 < n"
  shows "validate state (JStr (''stateBucket'' @ sfx)) = Inr (Some StateBucketRange)"
  using assms by (auto simp: validate_def)

lemma validate_other_range:
  assumes "truthy state" and "py_int sfx = Some n" and "n < 1 \<or> 2 < n"
  shows "validate state (JStr (''otherNamesBucket'' @ sfx)) = Inr (Some OtherBucketRange)"
  using assms by (auto simp: validate_def)

lemma validate_state_ok:
  assumes "truthy state" and "py_int sfx = Some n" and "1 \<le> n" and "n \<le> 4"
  shows "validate state (JStr (''stateBucket'' @ sfx)) = Inr None"
  using assms by (auto simp: validate_def)

lemma format_response_error:
  "format_response (Error err) api
     = Inr (if api then Envelope 200 (Some cors_headers) (Error err) else Direct (Error err))"
  by (simp add: format_response_def)

lemma format_response_names:
  "format_response (Value (L names)) api
     = Inr (if api then Envelope 200 (Some cors_headers) (Value (L names))
            else Direct (Value (L names)))"
  by (simp add: format_response_def)

lemma format_response_envelope:
  "format_response d True = Inr r \<Longrightarrow> r = Envelope 200 (Some cors_headers) d"
  by (auto simp: format_response_def split: if_splits)

lemma lambda_handler_rejected:
  assumes "extract_params loads event = Inr (Params state bucket)"
    and "validate state bucket = Inr (Some err)"
  shows "lambda_handler loads event tbl
           = (format_response (Error err) (is_api_gateway_event event), tbl)"
  using assms by (simp add: lambda_handler_def)

lemma lambda_handler_query:
  assumes "extract_params loads event = Inr (Params state bucket)"
    and "validate state bucket = Inr None"
    and "query state bucket tbl = (Inr d, tbl')"
  shows "lambda_handler loads event tbl
           = (format_response d (is_api_gateway_event event), tbl')"
  using assms by (simp add: lambda_handler_def)

lemma lambda_handler_query_raises:
  assumes "extract_params loads event = Inr (Params state bucket)"
    and "validate state bucket = Inr None"
    and "query state bucket tbl = (Inl e, tbl')"
  shows "lambda_handler loads event tbl = (Inl e, tbl')"
  using assms by (simp add: lambda_handler_def)

lemma validate_ok_bucket:
  "validate state bucket = Inr None \<Longrightarrow> truthy state \<and> (\<exists>b. bucket = JStr b)"
  by (auto simp: validate_def split: if_splits json.splits)

lemma query_missing:
  assumes "fst (get_item tbl state) = Inr None
           \<or> (\<exists>item b. bucket = JStr b \<and> fst (get_item tbl state) = Inr (Some item)
                 \<and> map_of item b = None)"
  shows "query state bucket tbl = (Inr (Value (L [])), snd (get_item tbl state))"
  using assms by (cases "get_item tbl state") (auto simp: query_def)

lemma query_found:
  assumes "fst (get_item tbl state) = Inr (Some item)" and "map_of item b = Some v"
  shows "query state (JStr b) tbl = (Inr (Value v), snd (get_item tbl state))"
  using assms by (cases "get_item tbl state") (auto simp: query_def)

lemma query_client_error:
  assumes "fst (get_item tbl state) = Inl (ClientError e)"
  shows "query state bucket tbl = (Inr (Error (StoreError e)), snd (get_item tbl state))"
  using assms by (cases "get_item tbl state") (auto simp: query_def)

lemma query_cases:
  "query state bucket tbl = (Inr d, tbl') \<Longrightarrow>
     (\<forall>e. fst (get_item tbl state) = Inl (ClientError e) \<longrightarrow> d = Error (StoreError e))"
  by (cases "get_item tbl state") (auto simp: query_def split: sum.splits py_exn.splits)

lemma get_item_valid:
  assumes "fault tbl = None" and "valid_key s"
  shows "get_item tbl (JStr s)
           = (Inr (map_of (rows tbl) s), tbl\<lparr>log := log tbl @ [GetItem (JStr s)]\<rparr>)"
  using assms by (simp add: get_item_def)

lemma valid_key_OH: "valid_key ''OH''" "valid_key ''ZZ''"
  by (simp_all add: valid_key_def key_bytes_def)

lemma state_item_keys:
  assumes "state_item state nbs u t obs = Inr item"
  shows "map_of item ''State'' = Some (S state)"
    and "map_of item ''stateBucket1'' = Some (L (nbs ! 0))"
    and "map_of item ''stateBucket2'' = Some (L (nbs ! 1))"
    and "map_of item ''stateBucket3'' = Some (L (nbs ! 2))"
    and "map_of item ''stateBucket4'' = Some (L (nbs ! 3))"
    and "map_of item (''nameBucket'' @ x) = None"
  using assms
  by (auto simp: state_item_def Let_def split: if_splits option.splits list.splits)

lemma put_item_rows:
  assumes "map_of item ''State'' = Some (S k)" and "put_item tbl item = Inr t"
  shows "fault tbl = None \<and> valid_key k
         \<and> t = tbl\<lparr>rows := AList.update k item (rows tbl), log := log tbl @ [PutItem k]\<rparr>"
  using assms by (auto simp: put_item_def split: option.splits if_splits)

lemma put_item_again:
  assumes "put_item tbl item = Inr t" and "fault tbl' = None"
  shows "\<exists>t'. put_item tbl' item = Inr t'"
  using assms
  by (auto simp: put_item_def split: option.splits if_splits attr.splits)

lemma write_to_dynamodb_row:
  assumes "write_to_dynamodb state nbs u t obs tbl = Inr tbl'"
  shows "\<exists>item. state_item state nbs u t obs = Inr item \<and> fault tbl = None \<and> fault tbl' = None
           \<and> valid_key state
           \<and> rows tbl' = AList.update state item (rows tbl)
           \<and> log tbl' = log tbl @ [PutItem state]
           \<and> map_of (rows tbl') state = Some item"
proof -
  from assms obtain item where it: "state_item state nbs u t obs = Inr item"
    and put: "put_item tbl item = Inr tbl'"
    by (auto simp: write_to_dynamodb_def split: sum.splits)
  from put_item_rows [OF state_item_keys(1) [OF it] put] it show ?thesis
    by (auto simp: update_conv')
qed

text \<open>
  The handler of lambda\_function.py returns the bucket the loader wrote, for every
  state the store accepted and every bucket number.
\<close>

lemma lambda_handler_round_trip:
  assumes w: "write_to_dynamodb state nbs u t obs tbl = Inr tbl'"
    and n: "n \<in> {1, 2, 3, 4}"
  shows "lambda_handler loads
           (JObj [(''state'', JStr state), (''bucket'', JStr (''stateBucket'' @ str_nat n))]) tbl'
         = (Inr (Direct (Value (L (nbs ! (n - 1))))),
            tbl'\<lparr>log := log tbl' @ [GetItem (JStr state)]\<rparr>)"
proof -
  let ?b = "''stateBucket'' @ str_nat n"
  let ?ev = "JObj [(''state'', JStr state), (''bucket'', JStr ?b)]"
  from write_to_dynamodb_row [OF w] obtain item where
    it: "state_item state nbs u t obs = Inr item" and f: "fault tbl' = None"
    and vk: "valid_key state"
    and r: "map_of (rows tbl') state = Some item" by blast
  have ex: "extract_params loads ?ev = Inr (Params (JStr state) (JStr ?b))"
    by (simp add: extract_params_direct)
  have api: "\<not> is_api_gateway_event ?ev" by (simp add: is_api_gateway_event_def)
  have pi: "py_int (str_nat n) = Some (int n)" and rng: "1 \<le> int n" "int n \<le> 4"
    using n by (auto simp: str_nat_small py_int_small)
  have v: "validate (JStr state) (JStr ?b) = Inr None"
    using vk by (intro validate_state_ok [OF _ pi rng]) (simp add: valid_key_def)
  have k: "map_of item ?b = Some (L (nbs ! (n - 1)))"
    using n state_item_keys(2-5) [OF it] by (auto simp: str_nat_small)
  have g: "get_item tbl' (JStr state)
             = (Inr (Some item), tbl'\<lparr>log := log tbl' @ [GetItem (JStr state)]\<rparr>)"
    using get_item_valid [OF f vk] r by simp
  have q: "query (JStr state) (JStr ?b) tbl'
             = (Inr (Value (L (nbs ! (n - 1)))), tbl'\<lparr>log := log tbl' @ [GetItem (JStr state)]\<rparr>)"
    using query_found [of tbl' "JStr state" item ?b, OF _ k] g by simp
  show ?thesis
    using lambda_handler_query [OF ex v q] api by (simp add: format_response_def)
qed

text \<open>
  The handler of get\_state\_names\_lambda.py returns the empty list for every record the
  loader wrote and every bucket number it accepts.
\<close>

lemma get_state_names_lambda_handler_after_write:
  assumes w: "write_to_dynamodb state nbs u t obs tbl = Inr tbl'"
    and n: "1 \<le> n" "n \<le> 5"
  shows "get_state_names_lambda_handler
           (JObj [(''state'', JStr state), (''bucketNumber'', JNum n)]) tbl'
         = (Inr (Value (L [])), tbl'\<lparr>log := log tbl' @ [GetItem (JStr state)]\<rparr>)"
proof -
  from write_to_dynamodb_row [OF w] obtain item where
    it: "state_item state nbs u t obs = Inr item" and f: "fault tbl' = None"
    and vk: "valid_key state"
    and r: "map_of (rows tbl') state = Some item" by blast
  have k: "map_of item (''nameBucket'' @ str_int n) = None"
    by (rule state_item_keys(6) [OF it])
  show ?thesis
    using n r k get_item_valid [OF f vk]
    by (simp add: get_state_names_lambda_handler_def)
qed

text \<open>
  The handler of lambda\_function.py refuses a number out of range, for either family,
  and leaves the table and its log as they were.
\<close>

lemma lambda_handler_state_bucket_range:
  assumes "extract_params loads event = Inr (Params state (JStr (''stateBucket'' @ sfx)))"
    and "truthy state" and "py_int sfx = Some n" and "n < 1 \<or> 4 < n"
  shows "lambda_handler loads event tbl
           = (format_response (Error StateBucketRange) (is_api_gateway_event event), tbl)"
  by (rule lambda_handler_rejected [OF assms(1) validate_state_range [OF assms(2-4)]])

lemma lambda_handler_other_bucket_range:
  assumes "extract_params loads event = Inr (Params state (JStr (''otherNamesBucket'' @ sfx)))"
    and "truthy state" and "py_int sfx = Some n" and "n < 1 \<or> 2 < n"
  shows "lambda_handler loads event tbl
           = (format_response (Error OtherBucketRange) (is_api_gateway_event event), tbl)"
  by (rule lambda_handler_rejected [OF assms(1) validate_other_range [OF assms(2-4)]])

lemma first_tool_call_not_400: "first_tool_call loads tcs \<noteq> Inr Invalid400"
  by (induction tcs) (auto split: sum.splits bool.splits)

lemma extract_body_400:
  "extract_body loads b = Inr Invalid400
   \<longleftrightarrow> args_shape b = Inr False \<and> tool_call_shape b = Inr False"
  using first_tool_call_not_400 [of loads]
  by (auto simp: extract_body_def split: sum.splits bool.splits)

lemma extract_params_400:
  assumes "is_api_gateway_event event"
  shows "extract_params loads event = Inr Invalid400
   \<longleftrightarrow> (\<exists>b. decoded_body loads event = Inr b \<and> args_shape b = Inr False
            \<and> tool_call_shape b = Inr False)"
  using assms by (auto simp: extract_params_def extract_body_400 split: sum.splits)

section \<open>Properties of the pipeline\<close>

lemma get_all_existing_names_table:
  "rows (snd (get_all_existing_names tbl)) = rows tbl"
  "fault (snd (get_all_existing_names tbl)) = fault tbl"
  by (simp_all add: get_all_existing_names_def scan_def split: option.splits)

lemma international_buckets_for_table:
  "rows (snd (international_buckets_for nbs intl ex tbl)) = rows tbl"
  "fault (snd (international_buckets_for nbs intl ex tbl)) = fault tbl"
  using get_all_existing_names_table [of tbl]
  by (auto simp: international_buckets_for_def Let_def
      split: option.splits list.splits prod.splits sum.splits)

lemma international_buckets_for_independent:
  "fst (international_buckets_for nbs intl ex tbl) = fst (international_buckets_for nbs intl ex' tbl')"
  by (auto simp: international_buckets_for_def Let_def
      split: option.splits list.splits prod.splits sum.splits)

lemma international_buckets_for_total:
  "\<exists>obs. fst (international_buckets_for nbs intl ex tbl) = Inr obs
         \<and> (\<forall>bs. obs = Some bs \<longrightarrow> length bs = 2)"
proof (cases "intl = None \<or> intl = Some []")
  case True
  then show ?thesis by (auto simp: international_buckets_for_def)
next
  case False
  then obtain n ns where intl: "intl = Some (n # ns)" by (cases intl; cases "the intl") auto
  let ?names = "\<Union> (set ` set nbs)"
  have "create_international_name_buckets (n # ns) ?names 3950 2
          = create_name_buckets (map (\<lambda>x. (x, 0)) (filter (\<lambda>x. x \<notin> ?names) (n # ns))) 3950 2"
    by (rule create_international_name_buckets_filter)
  moreover from create_name_buckets_total [of 2 _ 3950]
  obtain bs where "create_name_buckets (map (\<lambda>x. (x, 0)) (filter (\<lambda>x. x \<notin> ?names) (n # ns))) 3950 2
      = Inr bs" and "length bs = 2"
    by fastforce
  ultimately show ?thesis
    using intl by (auto simp: international_buckets_for_def Let_def split: prod.splits)
qed

lemma state_item_total:
  assumes "length nbs = 4" and "\<forall>bs. obs = Some bs \<longrightarrow> length bs = 2"
  shows "\<exists>item. state_item st nbs u t obs = Inr item"
  using assms by (auto simp: state_item_def Let_def split: option.splits list.splits)

text \<open>
  Aggregation and packing never fail: a run of \<open>process_state_file\<close> is the write of
  one item, which the path, the lines and the international names fix.
\<close>

lemma process_state_file_item:
  "\<exists>nbs item. create_name_buckets (fst (analyze_names ls)) 3950 4 = Inr nbs
     \<and> map_of item ''State'' = Some (S (state_of_path p))
     \<and> (\<forall>ex tbl. process_state_file p ls intl ex tbl
           = put_item (snd (international_buckets_for nbs intl ex tbl)) item)"
proof -
  let ?res = "fst (analyze_names ls)"
  from create_name_buckets_total [of 4 ?res 3950]
  obtain nbs where nb: "create_name_buckets ?res 3950 4 = Inr nbs" and len: "length nbs = 4"
    by fastforce
  from international_buckets_for_total [of nbs intl None "\<lparr>rows = [], fault = None, log = []\<rparr>"]
  obtain obs where ob0: "fst (international_buckets_for nbs intl None
                                \<lparr>rows = [], fault = None, log = []\<rparr>) = Inr obs"
    and oblen: "\<forall>bs. obs = Some bs \<longrightarrow> length bs = 2" by blast
  have ob: "fst (international_buckets_for nbs intl ex tbl) = Inr obs" for ex tbl
    using ob0 international_buckets_for_independent by metis
  from state_item_total [OF len oblen]
  obtain item where it: "state_item (state_of_path p) nbs (int (length ?res)) (snd (analyze_names ls)) obs
                           = Inr item"
    by blast
  have "process_state_file p ls intl ex tbl
          = put_item (snd (international_buckets_for nbs intl ex tbl)) item" for ex tbl
    using nb ob [of ex tbl] it
    by (simp add: process_state_file_def write_to_dynamodb_def case_prod_unfold Let_def)
  with nb state_item_keys(1) [OF it] show ?thesis by blast
qed

lemma process_state_file_rows:
  "\<exists>item. map_of item ''State'' = Some (S (state_of_path p))
     \<and> (\<forall>ex tbl. \<exists>tbl'. rows tbl' = rows tbl \<and> fault tbl' = fault tbl
           \<and> process_state_file p ls intl ex tbl = put_item tbl' item)
     \<and> (\<forall>ex tbl t. process_state_file p ls intl ex tbl = Inr t \<longrightarrow>
           fault tbl = None \<and> fault t = None
           \<and> rows t = AList.update (state_of_path p) item (rows tbl))"
proof -
  from process_state_file_item [of ls p intl]
  obtain nbs item where k: "map_of item ''State'' = Some (S (state_of_path p))"
    and run: "\<And>ex tbl. process_state_file p ls intl ex tbl
           = put_item (snd (international_buckets_for nbs intl ex tbl)) item"
    by blast
  have a: "\<exists>tbl'. rows tbl' = rows tbl \<and> fault tbl' = fault tbl
           \<and> process_state_file p ls intl ex tbl = put_item tbl' item" for ex tbl
    using run [of ex tbl] international_buckets_for_table [of nbs intl ex tbl] by blast
  have b: "fault tbl = None \<and> fault t = None
        \<and> rows t = AList.update (state_of_path p) item (rows tbl)"
    if "process_state_file p ls intl ex tbl = Inr t" for ex tbl t
    using put_item_rows [OF k, of "snd (international_buckets_for nbs intl ex tbl)" t]
      that international_buckets_for_table [of nbs intl ex tbl]
    unfolding run by simp
  from k a b show ?thesis by blast
qed

section \<open>Examples\<close>

lemmas text_defs = parts_of_def strip_def is_space_def int_defs

lemma analyze_names_example:
  "analyze_names [''OH,F,1960,Mary,10'', ''OH,M,2000,John,12''] = ([(''John'', 12), (''Mary'', 10)], 22)"
  by (simp add: analyze_names_def analyze_line_def text_defs)

lemma analyze_names_example_skip:
  "analyze_names [''OH,F,1960,Mary,10'', ''OH,M,2000,John,12'', ''OH,F,1950,Mary,5'',
     ''OH,F,2010,Mary,3''] = ([(''Mary'', 13), (''John'', 12)], 25)"
  by (simp add: analyze_names_def analyze_line_def text_defs)

text \<open>A year field that starts with the separator 28 is not an integer: the line is skipped.\<close>

lemma analyze_names_example_separator:
  "analyze_names [''OH,M,2000,John,12'',
     ''OH,F,'' @ [CHR 0x1C] @ ''1960,Mary,10''] = ([(''John'', 12)], 12)"
  by (simp add: analyze_names_def analyze_line_def text_defs)

lemma state_of_path_example: "state_of_path ''data/states/OH.TXT'' = ''OH''"
  by (simp add: state_of_path_def)

lemma name_buckets_example:
  "create_name_buckets [(''John'', 12), (''Mary'', 10)] 3950 4 = Inr [[''John'', ''Mary''], [], [], []]"
  by (simp add: create_name_buckets_def name_size_def replicate_4)

lemma international_buckets_example:
  "create_international_name_buckets [''Yuki'', ''John''] {''John'', ''Mary''} 3950 2
     = Inr [[''Yuki''], []]"
  by (simp add: create_international_name_buckets_def name_size_def replicate_2)

lemmas pipeline_defs =
  process_state_file_def analyze_names_example state_of_path_example name_buckets_example
  international_buckets_for_def get_all_existing_names_def scan_def insert_commute
  international_buckets_example write_to_dynamodb_def state_item_def put_item_def Let_def
  str_nat_small valid_key_OH

lemma process_state_file_example:
  "process_state_file ''data/states/OH.TXT'' [''OH,F,1960,Mary,10'', ''OH,M,2000,John,12'']
         (Some [''Yuki'', ''John'']) None \<lparr>rows = [], fault = None, log = []\<rparr>
       = Inr \<lparr>rows = [(''OH'', oh_item)], fault = None, log = [Scan, PutItem ''OH'']\<rparr>"
  by (simp add: pipeline_defs)

lemma process_state_file_example_other_table:
  "process_state_file ''data/states/OH.TXT'' [''OH,F,1960,Mary,10'', ''OH,M,2000,John,12'']
         (Some [''Yuki'', ''John'']) (Some {''Yuki''})
         \<lparr>rows = [(''TX'', [(''State'', S ''TX''), (''stateBucket1'', L [''Yuki''])])], fault = None, log = []\<rparr>
       = Inr \<lparr>rows = [(''TX'', [(''State'', S ''TX''), (''stateBucket1'', L [''Yuki''])]), (''OH'', oh_item)], fault = None, log = [PutItem ''OH'']\<rparr>"
  by (simp add: pipeline_defs)

lemma process_state_file_example_again:
  "process_state_file ''data/states/OH.TXT'' [''OH,F,1960,Mary,10'', ''OH,M,2000,John,12'']
         (Some [''Yuki'', ''John'']) None \<lparr>rows = [(''OH'', oh_item)], fault = None, log = [Scan, PutItem ''OH'']\<rparr>
       = Inr \<lparr>rows = [(''OH'', oh_item)], fault = None, log = [Scan, PutItem ''OH'', Scan, PutItem ''OH'']\<rparr>"
  by (simp add: pipeline_defs)

text \<open>The store refuses the empty key, so the file \<open>.TXT\<close> is not published.\<close>

lemma process_state_file_example_empty_state:
  "process_state_file ''data/states/.TXT'' [''OH,F,1960,Mary,10'', ''OH,M,2000,John,12'']
         None None \<lparr>rows = [], fault = None, log = []\<rparr>
       = Inl (ClientError ''ValidationException'')"
  by (simp add: process_state_file_def analyze_names_example state_of_path_def
      name_buckets_example international_buckets_for_def write_to_dynamodb_def state_item_def
      put_item_def valid_key_def)

text \<open>
  A state of 41 digits is not sent to the store: the exception of the client library
  leaves the handler, in either shape of the request.
\<close>

lemma lambda_handler_example_big_number:
  "lambda_handler (\<lambda>s. None)
     (JObj [(''state'', JNum (10 ^ 40)), (''bucket'', JStr ''stateBucket1'')])
     \<lparr>rows = [], fault = None, log = []\<rparr>
   = (Inl DecimalException, \<lparr>rows = [], fault = None, log = []\<rparr>)"
  by (simp add: lambda_handler_def extract_params_direct validate_def py_int_small
      query_def get_item_def)

text \<open>A stored number cannot be encoded into the body of the envelope.\<close>

lemma lambda_handler_example_stored_number:
  "fst (lambda_handler (\<lambda>s. None)
     (JObj [(''body'', JObj [(''args'',
        JObj [(''state'', JStr ''OH''), (''bucket'', JStr ''stateBucket01'')])])])
     \<lparr>rows = [(''OH'', [(''State'', S ''OH''), (''stateBucket01'', N 7)])],
       fault = None, log = []\<rparr>)
   = Inl TypeError"
  by (simp add: lambda_handler_def extract_params_def is_api_gateway_event_def decoded_body_def
      extract_body_def args_shape_def validate_def int_defs query_def get_item_def valid_key_OH
      format_response_def)

section \<open>The claims\<close>

text \<open>
  C1 (what the loader writes, the lookup reads back): the handler of
  get\_state\_names\_lambda.py reads the key \<open>nameBucket\<close> followed by the number, a key
  \<open>write_to_dynamodb\<close> never writes. After publishing the record of Ohio with the
  first bucket \<open>[James]\<close>, it answers the request for bucket 1 with the empty list,
  where the handler of lambda\_function.py answers \<open>[James]\<close>
  (in general: \<open>get_state_names_lambda_handler_after_write\<close> and
  \<open>lambda_handler_round_trip\<close>).
\<close>

theorem get_state_names_lambda_handler_wrong_key:
  "\<exists>tbl. write_to_dynamodb ''OH'' [[''James''], [''Mary''], [], []] 2 17 None
            \<lparr>rows = [], fault = None, log = []\<rparr> = Inr tbl
      \<and> fst (get_state_names_lambda_handler
               (JObj [(''state'', JStr ''OH''), (''bucketNumber'', JNum 1)]) tbl)
          = Inr (Value (L []))
      \<and> fst (lambda_handler (\<lambda>s. None)
               (JObj [(''state'', JStr ''OH''), (''bucket'', JStr ''stateBucket1'')]) tbl)
          = Inr (Direct (Value (L [''James''])))"
proof -
  obtain tbl where w: "write_to_dynamodb ''OH'' [[''James''], [''Mary''], [], []] 2 17 None
            \<lparr>rows = [], fault = None, log = []\<rparr> = Inr tbl"
    by (simp add: write_to_dynamodb_def state_item_def put_item_def valid_key_OH)
  have a: "fst (get_state_names_lambda_handler
               (JObj [(''state'', JStr ''OH''), (''bucketNumber'', JNum 1)]) tbl)
          = Inr (Value (L []))"
    using get_state_names_lambda_handler_after_write [OF w, of 1] by simp
  have b: "fst (lambda_handler (\<lambda>s. None)
               (JObj [(''state'', JStr ''OH''), (''bucket'', JStr ''stateBucket1'')]) tbl)
          = Inr (Direct (Value (L [''James''])))"
    using lambda_handler_round_trip [OF w, of 1 "\<lambda>s. None"] by (simp add: str_nat_small)
  from w a b show ?thesis by blast
qed

text \<open>
  C2 (the size budget of every bucket): with the loader's own budget of 3950 and four
  buckets, a single name of 3945 characters costs 3949, does not fit after the 2 of the
  empty first bucket, and is appended to the second bucket all the same; that bucket
  then has size 3951. The loop of \<open>create_international_name_buckets\<close> does the same.
\<close>

theorem create_name_buckets_oversized_name:
  "create_name_buckets [(replicate 3945 CHR ''a'', 1)] 3950 4
     = Inr [[], [replicate 3945 CHR ''a''], [], []]
   \<and> create_international_name_buckets [replicate 3945 CHR ''a''] {} 3950 2
     = Inr [[], [replicate 3945 CHR ''a'']]
   \<and> bucket_size [replicate 3945 CHR ''a''] = 3951"
  by (simp add: create_name_buckets_def create_international_name_buckets_def
      name_size_def bucket_size_def replicate_4 replicate_2)

text \<open>
  C3 (prefix and truncation): with at least one bucket, \<open>create_name_buckets\<close> returns
  as many buckets as asked for; whenever it returns, the buckets concatenated in order
  are a prefix of the input names, the names left out are the remaining suffix, and
  (with at least one bucket) the first name left out did not fit into the last bucket.
\<close>

theorem create_name_buckets_prefix:
  "(0 < k \<longrightarrow> (\<exists>bs. create_name_buckets rs m k = Inr bs \<and> length bs = nat k)) \<and>
   (\<forall>bs. create_name_buckets rs m k = Inr bs \<longrightarrow>
      (\<exists>rest. map fst rs = concat bs @ rest \<and> prefix (concat bs) (map fst rs) \<and>
         (rest \<noteq> [] \<and> 0 < k \<longrightarrow> bucket_size (last bs) + name_size (hd rest) > m)))"
proof (cases "0 < k")
  case True
  from create_name_buckets_total [OF True, of rs m] show ?thesis
    using True by (auto simp: prefix_def)
next
  case False
  then have "\<forall>bs. create_name_buckets rs m k = Inr bs \<longrightarrow> bs = []"
    using create_name_buckets_no_buckets [of k rs m] by auto
  with False show ?thesis by auto
qed

theorem create_name_buckets_prefix_witness:
  "(0::int) < 2
   \<and> create_name_buckets [(''James'', 9), (''Mary'', 8), (''John'', 7)] 15 2
       = Inr [[''James''], [''Mary'']]
   \<and> (\<exists>rest. map fst [(''James'', 9::int), (''Mary'', 8), (''John'', 7)]
               = concat [[''James''], [''Mary'']] @ rest
         \<and> rest \<noteq> []
         \<and> bucket_size (last [[''James''], [''Mary'']]) + name_size (hd rest) > 15)"
proof -
  have ev: "create_name_buckets [(''James'', 9), (''Mary'', 8), (''John'', 7)] 15 2
              = Inr [[''James''], [''Mary'']]"
    by (simp add: create_name_buckets_def name_size_def replicate_2)
  from create_name_buckets_prefix [of 2 "[(''James'', 9), (''Mary'', 8), (''John'', 7)]" 15] ev
  obtain rest where r: "map fst [(''James'', 9::int), (''Mary'', 8), (''John'', 7)]
               = concat [[''James''], [''Mary'']] @ rest"
    and f: "rest \<noteq> [] \<and> (0::int) < 2 \<longrightarrow>
              bucket_size (last [[''James''], [''Mary'']]) + name_size (hd rest) > 15"
    by auto
  from r have "rest = [''John'']" by simp
  with r f ev show ?thesis by auto
qed

text \<open>
  C4 (the international packing is the state packing of the filtered list): for any
  counts \<open>c\<close> attached to the names, \<open>create_international_name_buckets\<close> returns
  what \<open>create_name_buckets\<close> returns on the names not in \<open>existing_names\<close>, in their
  order (the same buckets or the same exception), and no bucket it returns holds a name
  of \<open>existing_names\<close>.
\<close>

theorem create_international_name_buckets_refines:
  "create_international_name_buckets names ex m k
     = create_name_buckets (map (\<lambda>n. (n, c n)) (filter (\<lambda>n. n \<notin> ex) names)) m k
   \<and> (\<forall>bs. create_international_name_buckets names ex m k = Inr bs \<longrightarrow>
         (\<forall>b \<in> set bs. set b \<inter> ex = {}))"
proof -
  have eq: "create_international_name_buckets names ex m k
     = create_name_buckets (map (\<lambda>n. (n, c n)) (filter (\<lambda>n. n \<notin> ex) names)) m k"
    by (rule create_international_name_buckets_filter)
  have "\<forall>b \<in> set bs. set b \<inter> ex = {}"
    if "create_international_name_buckets names ex m k = Inr bs" for bs
  proof -
    from that eq have "set (concat bs) \<subseteq> fst ` set (map (\<lambda>n. (n, c n)) (filter (\<lambda>n. n \<notin> ex) names))"
      using create_name_buckets_names by metis
    then have "set (concat bs) \<subseteq> {n \<in> set names. n \<notin> ex}"
      by (auto simp: image_iff)
    then show ?thesis by auto
  qed
  with eq show ?thesis by blast
qed

theorem create_international_name_buckets_refines_witness:
  "create_international_name_buckets [''Yuki'', ''John''] {''John''} 3950 2 = Inr [[''Yuki''], []]
   \<and> create_name_buckets [(''Yuki'', 0)] 3950 2 = Inr [[''Yuki''], []]
   \<and> set [''Yuki''] \<inter> {''John''} = {} \<and> set ([]::string list) \<inter> {''John''} = {}"
proof -
  have ev: "create_international_name_buckets [''Yuki'', ''John''] {''John''} 3950 2
              = Inr [[''Yuki''], []]"
    by (simp add: create_international_name_buckets_def name_size_def replicate_2)
  from create_international_name_buckets_refines
         [of "[''Yuki'', ''John'']" "{''John''}" 3950 2 "\<lambda>_. 0"] ev
  show ?thesis by simp
qed

text \<open>
  C5 (aggregation): the totals of the names \<open>analyze_names\<close> returns add up to the
  grand total it returns; the list is in descending order of the totals and no name
  occurs twice; and a line that does not have five fields, whose year or count is not
  an integer, or whose year is outside 1955..2010, changes nothing: with or without
  it, anywhere among the lines, the result is the same.
\<close>

theorem analyze_names_sum:
  "sum_list (map snd (fst (analyze_names lines))) = snd (analyze_names lines)
   \<and> sorted_wrt (\<lambda>a b. snd a \<ge> snd b) (fst (analyze_names lines))
   \<and> distinct (map fst (fst (analyze_names lines)))
   \<and> ((length (parts_of l) \<noteq> 5 \<or> py_int (parts_of l ! 2) = None
         \<or> py_int (parts_of l ! 4) = None
         \<or> (\<exists>y. py_int (parts_of l ! 2) = Some y \<and> (y < 1955 \<or> 2010 < y)))
        \<longrightarrow> analyze_names (xs @ l # ys) = analyze_names (xs @ ys))"
  using analyze_names_inv [of lines] analyze_line_skip [of l] analyze_names_skip [of xs l ys]
  by metis

theorem analyze_names_sum_witness:
  "py_int (parts_of ''OH,F,1950,Mary,5'' ! 2) = Some 1950 \<and> (1950::int) < 1955
   \<and> analyze_names [''OH,F,1960,Mary,10'', ''OH,M,2000,John,12'', ''OH,F,1950,Mary,5'', ''OH,F,2010,Mary,3'']
       = ([(''Mary'', 13), (''John'', 12)], 25)
   \<and> sum_list (map snd [(''Mary'', 13::int), (''John'', 12)]) = 25
   \<and> analyze_names ([''OH,F,1960,Mary,10'', ''OH,M,2000,John,12''] @ ''OH,F,1950,Mary,5'' # [''OH,F,2010,Mary,3''])
       = analyze_names ([''OH,F,1960,Mary,10'', ''OH,M,2000,John,12''] @ [''OH,F,2010,Mary,3''])"
proof -
  have h: "py_int (parts_of ''OH,F,1950,Mary,5'' ! 2) = Some 1950"
    by (simp add: text_defs)
  from analyze_names_sum
         [of "[''OH,F,1960,Mary,10'', ''OH,M,2000,John,12'', ''OH,F,1950,Mary,5'', ''OH,F,2010,Mary,3'']"
             "''OH,F,1950,Mary,5''" "[''OH,F,1960,Mary,10'', ''OH,M,2000,John,12'']"
             "[''OH,F,2010,Mary,3'']"] h
  have "analyze_names ([''OH,F,1960,Mary,10'', ''OH,M,2000,John,12''] @ ''OH,F,1950,Mary,5'' # [''OH,F,2010,Mary,3''])
       = analyze_names ([''OH,F,1960,Mary,10'', ''OH,M,2000,John,12''] @ [''OH,F,2010,Mary,3''])"
    by simp
  with h analyze_names_example_skip show ?thesis by simp
qed


text \<open>
  C7 (missing data is an empty list): for a request that passes validation,
  \<open>lambda_handler\<close> returns the empty list, as it is on a direct invocation and in the
  envelope with status 200 for the API Gateway shape, when the read of the table finds no
  item for the state, and when the item found has no attribute of the name of the bucket.
\<close>

theorem lambda_handler_missing_data:
  assumes "extract_params loads event = Inr (Params state bucket)"
    and "validate state bucket = Inr None"
    and "fst (get_item tbl state) = Inr None
         \<or> (\<exists>item b. bucket = JStr b \<and> fst (get_item tbl state) = Inr (Some item)
               \<and> map_of item b = None)"
  shows "lambda_handler loads event tbl
         = (Inr (if is_api_gateway_event event
                 then Envelope 200 (Some cors_headers) (Value (L []))
                 else Direct (Value (L []))),
            snd (get_item tbl state))"
  using lambda_handler_query [OF assms(1,2) query_missing [OF assms(3)]]
  by (simp add: format_response_names)

theorem lambda_handler_missing_data_witness:
  "extract_params (\<lambda>s. None) (JObj [(''state'', JStr ''ZZ''), (''bucket'', JStr ''stateBucket1'')])
     = Inr (Params (JStr ''ZZ'') (JStr ''stateBucket1''))
   \<and> validate (JStr ''ZZ'') (JStr ''stateBucket1'') = Inr None
   \<and> fst (get_item \<lparr>rows = [], fault = None, log = []\<rparr> (JStr ''ZZ'')) = Inr None
   \<and> lambda_handler (\<lambda>s. None)
        (JObj [(''state'', JStr ''ZZ''), (''bucket'', JStr ''stateBucket1'')])
        \<lparr>rows = [], fault = None, log = []\<rparr>
      = (Inr (Direct (Value (L []))), \<lparr>rows = [], fault = None, log = [GetItem (JStr ''ZZ'')]\<rparr>)
   \<and> validate (JStr ''OH'') (JStr ''otherNamesBucket1'') = Inr None
   \<and> fst (get_item
        \<lparr>rows = [(''OH'', [(''State'', S ''OH''), (''stateBucket1'', L [''James''])])],
          fault = None, log = []\<rparr> (JStr ''OH''))
      = Inr (Some [(''State'', S ''OH''), (''stateBucket1'', L [''James''])])
   \<and> map_of [(''State'', S ''OH''), (''stateBucket1'', L [''James''])] ''otherNamesBucket1'' = None
   \<and> fst (lambda_handler (\<lambda>s. None)
        (JObj [(''state'', JStr ''OH''), (''bucket'', JStr ''otherNamesBucket1'')])
        \<lparr>rows = [(''OH'', [(''State'', S ''OH''), (''stateBucket1'', L [''James''])])],
          fault = None, log = []\<rparr>) = Inr (Direct (Value (L [])))"
proof -
  let ?e1 = "JObj [(''state'', JStr ''ZZ''), (''bucket'', JStr ''stateBucket1'')]"
  let ?e2 = "JObj [(''state'', JStr ''OH''), (''bucket'', JStr ''otherNamesBucket1'')]"
  let ?t1 = "\<lparr>rows = [], fault = None, log = []\<rparr>"
  let ?t2 = "\<lparr>rows = [(''OH'', [(''State'', S ''OH''), (''stateBucket1'', L [''James''])])],
          fault = None, log = []\<rparr>"
  have x1: "extract_params (\<lambda>s. None) ?e1 = Inr (Params (JStr ''ZZ'') (JStr ''stateBucket1''))"
    and x2: "extract_params (\<lambda>s. None) ?e2 = Inr (Params (JStr ''OH'') (JStr ''otherNamesBucket1''))"
    by (simp_all add: extract_params_direct)
  have v1: "validate (JStr ''ZZ'') (JStr ''stateBucket1'') = Inr None"
    and v2: "validate (JStr ''OH'') (JStr ''otherNamesBucket1'') = Inr None"
    by (simp_all add: validate_def py_int_small)
  have g1: "get_item ?t1 (JStr ''ZZ'') = (Inr None, \<lparr>rows = [], fault = None, log = [GetItem (JStr ''ZZ'')]\<rparr>)"
    by (simp add: get_item_def valid_key_OH)
  have g2: "fst (get_item ?t2 (JStr ''OH''))
              = Inr (Some [(''State'', S ''OH''), (''stateBucket1'', L [''James''])])"
    by (simp add: get_item_def valid_key_OH)
  have r1: "lambda_handler (\<lambda>s. None) ?e1 ?t1
              = (Inr (Direct (Value (L []))), \<lparr>rows = [], fault = None, log = [GetItem (JStr ''ZZ'')]\<rparr>)"
    using lambda_handler_missing_data [OF x1 v1, of ?t1] g1
    by (simp add: is_api_gateway_event_def)
  have r2: "fst (lambda_handler (\<lambda>s. None) ?e2 ?t2) = Inr (Direct (Value (L [])))"
    using lambda_handler_missing_data [OF x2 v2, of ?t2] g2
    by (simp add: is_api_gateway_event_def)
  from x1 v1 v2 g1 g2 r1 r2 show ?thesis by simp
qed

text \<open>
  C8 (publishing is idempotent): the path, the lines and the international names fix
  one item, with the state as its key, such that every run of \<open>process_state_file\<close>,
  on any table and with any \<open>existing_names\<close>, is the write of this item and nothing
  else (aggregation and packing do not fail). A run that succeeds stores exactly this
  item under the state, in place of whatever was stored there; and a second run on the
  table it left succeeds as well and does not change the rows.
\<close>

theorem process_state_file_idempotent:
  "\<exists>item. map_of item ''State'' = Some (S (state_of_path p))
     \<and> (\<forall>ex tbl. \<exists>tbl'. rows tbl' = rows tbl \<and> fault tbl' = fault tbl
           \<and> process_state_file p ls intl ex tbl = put_item tbl' item)
     \<and> (\<forall>ex tbl t. process_state_file p ls intl ex tbl = Inr t \<longrightarrow>
           rows t = AList.update (state_of_path p) item (rows tbl)
           \<and> map_of (rows t) (state_of_path p) = Some item
           \<and> (\<forall>ex'. \<exists>t'. process_state_file p ls intl ex' t = Inr t')
           \<and> (\<forall>ex' t'. process_state_file p ls intl ex' t = Inr t' \<longrightarrow> rows t' = rows t))"
proof -
  from process_state_file_rows [of p ls intl]
  obtain item where k: "map_of item ''State'' = Some (S (state_of_path p))"
    and put: "\<And>ex tbl. \<exists>tbl'. rows tbl' = rows tbl \<and> fault tbl' = fault tbl
           \<and> process_state_file p ls intl ex tbl = put_item tbl' item"
    and run: "\<And>ex tbl t. process_state_file p ls intl ex tbl = Inr t \<Longrightarrow>
        fault tbl = None \<and> fault t = None
        \<and> rows t = AList.update (state_of_path p) item (rows tbl)"
    by blast
  have "rows t = AList.update (state_of_path p) item (rows tbl)
         \<and> map_of (rows t) (state_of_path p) = Some item
         \<and> (\<forall>ex'. \<exists>t'. process_state_file p ls intl ex' t = Inr t')
         \<and> (\<forall>ex' t'. process_state_file p ls intl ex' t = Inr t' \<longrightarrow> rows t' = rows t)"
    if r: "process_state_file p ls intl ex tbl = Inr t" for ex tbl t
  proof -
    from put [where ex = ex and tbl = tbl] r
    obtain tbl' where p1: "put_item tbl' item = Inr t" by metis
    have again: "\<exists>t'. process_state_file p ls intl ex' t = Inr t'" for ex'
    proof -
      from put [where ex = ex' and tbl = t] obtain t'' where f: "fault t'' = fault t"
        and e: "process_state_file p ls intl ex' t = put_item t'' item" by blast
      from run [OF r] f have "fault t'' = None" by simp
      with put_item_again [OF p1] e show ?thesis by simp
    qed
    have same: "rows t' = rows t" if "process_state_file p ls intl ex' t = Inr t'" for ex' t'
      using run [OF that] run [OF r] by (simp add: update_last)
    from run [OF r] again same show ?thesis by (simp add: update_conv')
  qed
  with k put show ?thesis by blast
qed

theorem process_state_file_idempotent_witness:
  "process_state_file ''data/states/OH.TXT'' [''OH,F,1960,Mary,10'', ''OH,M,2000,John,12'']
         (Some [''Yuki'', ''John'']) None \<lparr>rows = [], fault = None, log = []\<rparr>
       = Inr \<lparr>rows = [(''OH'', oh_item)], fault = None, log = [Scan, PutItem ''OH'']\<rparr>
   \<and> process_state_file ''data/states/OH.TXT'' [''OH,F,1960,Mary,10'', ''OH,M,2000,John,12'']
         (Some [''Yuki'', ''John'']) None
         \<lparr>rows = [(''OH'', oh_item)], fault = None, log = [Scan, PutItem ''OH'']\<rparr>
       = Inr \<lparr>rows = [(''OH'', oh_item)], fault = None,
               log = [Scan, PutItem ''OH'', Scan, PutItem ''OH'']\<rparr>
   \<and> rows \<lparr>rows = [(''OH'', oh_item)], fault = None,
               log = [Scan, PutItem ''OH'', Scan, PutItem ''OH'']\<rparr>
       = rows \<lparr>rows = [(''OH'', oh_item)], fault = None, log = [Scan, PutItem ''OH'']\<rparr>
   \<and> map_of (rows \<lparr>rows = [(''OH'', oh_item)], fault = None, log = [Scan, PutItem ''OH'']\<rparr>)
         (state_of_path ''data/states/OH.TXT'') = Some oh_item"
proof -
  from process_state_file_idempotent
         [of "''data/states/OH.TXT''"
             "[''OH,F,1960,Mary,10'', ''OH,M,2000,John,12'']" "Some [''Yuki'', ''John'']"]
  obtain item where
    H: "\<forall>ex tbl t. process_state_file ''data/states/OH.TXT''
           [''OH,F,1960,Mary,10'', ''OH,M,2000,John,12''] (Some [''Yuki'', ''John'']) ex tbl = Inr t \<longrightarrow>
         rows t = AList.update (state_of_path ''data/states/OH.TXT'') item (rows tbl)
         \<and> map_of (rows t) (state_of_path ''data/states/OH.TXT'') = Some item
         \<and> (\<forall>ex'. \<exists>t'. process_state_file ''data/states/OH.TXT''
                [''OH,F,1960,Mary,10'', ''OH,M,2000,John,12''] (Some [''Yuki'', ''John'']) ex' t = Inr t')
         \<and> (\<forall>ex' t'. process_state_file ''data/states/OH.TXT''
                [''OH,F,1960,Mary,10'', ''OH,M,2000,John,12''] (Some [''Yuki'', ''John'']) ex' t = Inr t'
              \<longrightarrow> rows t' = rows t)"
    by blast
  from H [rule_format, OF process_state_file_example]
    process_state_file_example process_state_file_example_again state_of_path_example
  show ?thesis by simp
qed

text \<open>
  C9 (status codes of the API Gateway shape): for an event that is a dict with a
  \<open>body\<close>, an exception leaves \<open>lambda_handler\<close> only after validation has passed,
  from the read of the table or from the encoding of what it returned. Every response
  is the envelope, with status 200 or 400. The status is 400 exactly when the body
  decodes and has neither the \<open>args\<close> shape nor the tool call shape; that envelope has
  no headers and holds the error of the invalid request format. An envelope of status
  200 has the headers of \<open>format_response\<close> and holds in its body: the parsing error
  when the extraction or the validation raised; the error object of the validation
  (missing parameters, unknown family, number out of the range of the family); and the
  text of the \<open>ClientError\<close> when the read raised one.
\<close>

theorem lambda_handler_api_gateway_status:
  assumes "is_api_gateway_event event"
  shows
    "(\<forall>e. fst (lambda_handler loads event tbl) = Inl e \<longrightarrow>
        (\<exists>state bucket. extract_params loads event = Inr (Params state bucket)
           \<and> validate state bucket = Inr None
           \<and> (fst (query state bucket tbl) = Inl e
                \<or> (\<exists>d. fst (query state bucket tbl) = Inr d \<and> dumps_raises d))))
     \<and> (\<forall>r. fst (lambda_handler loads event tbl) = Inr r \<longrightarrow>
        (\<exists>code hs d. r = Envelope code hs d
           \<and> (code = 200 \<or> code = 400)
           \<and> (code = 400 \<longleftrightarrow>
                (\<exists>b. decoded_body loads event = Inr b \<and> args_shape b = Inr False
                     \<and> tool_call_shape b = Inr False))
           \<and> (code = 400 \<longrightarrow> hs = None \<and> d = Error InvalidRequestFormat)
           \<and> (code = 200 \<longrightarrow> hs = Some cors_headers)
           \<and> (\<forall>e. extract_params loads event = Inl e \<longrightarrow> d = Error (ErrorParsing e))
           \<and> (\<forall>state bucket. extract_params loads event = Inr (Params state bucket) \<longrightarrow>
                (\<forall>e. validate state bucket = Inl e \<longrightarrow> d = Error (ErrorParsing e))
              \<and> (\<forall>err. validate state bucket = Inr (Some err) \<longrightarrow> d = Error err)
              \<and> (\<not> truthy state \<or> \<not> truthy bucket \<longrightarrow> d = Error MissingParameters)
              \<and> (\<forall>b. truthy state \<and> bucket = JStr b \<and> b \<noteq> []
                      \<and> \<not> prefix ''stateBucket'' b \<and> \<not> prefix ''otherNamesBucket'' b
                    \<longrightarrow> d = Error BadPrefix)
              \<and> (\<forall>sfx n. truthy state \<and> bucket = JStr (''stateBucket'' @ sfx)
                      \<and> py_int sfx = Some n \<and> (n < 1 \<or> 4 < n)
                    \<longrightarrow> d = Error StateBucketRange)
              \<and> (\<forall>sfx n. truthy state \<and> bucket = JStr (''otherNamesBucket'' @ sfx)
                      \<and> py_int sfx = Some n \<and> (n < 1 \<or> 2 < n)
                    \<longrightarrow> d = Error OtherBucketRange)
              \<and> (validate state bucket = Inr None \<longrightarrow>
                   (\<forall>e. fst (get_item tbl state) = Inl (ClientError e)
                      \<longrightarrow> d = Error (StoreError e))))))"
proof -
  let ?none = "\<exists>b. decoded_body loads event = Inr b \<and> args_shape b = Inr False
                     \<and> tool_call_shape b = Inr False"
  note x400 = extract_params_400 [OF assms, of loads]
  consider (raised) e where "extract_params loads event = Inl e"
    | (bad) "extract_params loads event = Inr Invalid400"
    | (params) state bucket where "extract_params loads event = Inr (Params state bucket)"
    by (cases "extract_params loads event") (auto intro: extracted.exhaust)
  then show ?thesis
  proof cases
    case raised
    then have "lambda_handler loads event tbl
                 = (Inr (Envelope 200 (Some cors_headers) (Error (ErrorParsing e))), tbl)"
      using assms by (simp add: lambda_handler_def format_response_error)
    with raised x400 show ?thesis by simp
  next
    case bad
    then have "lambda_handler loads event tbl
                 = (Inr (Envelope 400 None (Error InvalidRequestFormat)), tbl)"
      by (simp add: lambda_handler_def)
    with bad x400 show ?thesis by simp
  next
    case params
    from params x400 have no: "\<not> ?none" by simp
    consider (vraised) e where "validate state bucket = Inl e"
      | (refused) err where "validate state bucket = Inr (Some err)"
      | (passed) "validate state bucket = Inr None"
      by (cases "validate state bucket") auto
    then show ?thesis
    proof cases
      case vraised
      then have t: "truthy state" "truthy bucket"
        using validate_missing [of state bucket] by auto
      from vraised have nb: "\<forall>b. bucket \<noteq> JStr b"
        by (auto simp: validate_def split: if_splits option.splits)
      from vraised params have "lambda_handler loads event tbl
                 = (Inr (Envelope 200 (Some cors_headers) (Error (ErrorParsing e))), tbl)"
        using assms by (simp add: lambda_handler_def format_response_error)
      with params vraised no t nb show ?thesis by simp
    next
      case refused
      from refused params have r: "lambda_handler loads event tbl
                 = (Inr (Envelope 200 (Some cors_headers) (Error err)), tbl)"
        using assms by (simp add: lambda_handler_rejected format_response_error)
      have m: "\<not> truthy state \<or> \<not> truthy bucket \<Longrightarrow> err = MissingParameters"
        using validate_missing [of state bucket] refused by auto
      have p: "err = BadPrefix"
        if "truthy state" "bucket = JStr b" "b \<noteq> []"
           "\<not> prefix ''stateBucket'' b" "\<not> prefix ''otherNamesBucket'' b" for b
        using validate_bad_prefix [OF that(1,3,4,5)] that(2) refused by simp
      have s: "err = StateBucketRange"
        if "truthy state" "bucket = JStr (''stateBucket'' @ sfx)" "py_int sfx = Some n"
           "n < 1 \<or> 4 < n" for sfx n
        using validate_state_range [OF that(1,3,4)] that(2) refused by simp
      have ot: "err = OtherBucketRange"
        if "truthy state" "bucket = JStr (''otherNamesBucket'' @ sfx)" "py_int sfx = Some n"
           "n < 1 \<or> 2 < n" for sfx n
        using validate_other_range [OF that(1,3,4)] that(2) refused by simp
      from r params refused no m p s ot show ?thesis by (simp; blast)
    next
      case passed
      then have t: "truthy state" "truthy bucket"
        using validate_missing [of state bucket] by auto
      have np: "\<not> (truthy state \<and> bucket = JStr b \<and> b \<noteq> []
                      \<and> \<not> prefix ''stateBucket'' b \<and> \<not> prefix ''otherNamesBucket'' b)" for b
      proof
        assume a: "truthy state \<and> bucket = JStr b \<and> b \<noteq> []
                      \<and> \<not> prefix ''stateBucket'' b \<and> \<not> prefix ''otherNamesBucket'' b"
        then have "validate state (JStr b) = Inr (Some BadPrefix)"
          by (intro validate_bad_prefix) simp_all
        with a passed show False by simp
      qed
      have ns: "\<not> (truthy state \<and> bucket = JStr (''stateBucket'' @ sfx)
                      \<and> py_int sfx = Some n \<and> (n < 1 \<or> 4 < n))" for sfx n
      proof
        assume a: "truthy state \<and> bucket = JStr (''stateBucket'' @ sfx)
                      \<and> py_int sfx = Some n \<and> (n < 1 \<or> 4 < n)"
        then have "validate state (JStr (''stateBucket'' @ sfx)) = Inr (Some StateBucketRange)"
          by (intro validate_state_range [of state sfx n]) simp_all
        with a passed show False by simp
      qed
      have no2: "\<not> (truthy state \<and> bucket = JStr (''otherNamesBucket'' @ sfx)
                      \<and> py_int sfx = Some n \<and> (n < 1 \<or> 2 < n))" for sfx n
      proof
        assume a: "truthy state \<and> bucket = JStr (''otherNamesBucket'' @ sfx)
                      \<and> py_int sfx = Some n \<and> (n < 1 \<or> 2 < n)"
        then have "validate state (JStr (''otherNamesBucket'' @ sfx)) = Inr (Some OtherBucketRange)"
          by (intro validate_other_range [of state sfx n]) simp_all
        with a passed show False by simp
      qed
      show ?thesis
      proof (cases "query state bucket tbl")
        case (Pair res tbl')
        show ?thesis
        proof (cases res)
          case (Inl e)
          with Pair have "lambda_handler loads event tbl = (Inl e, tbl')"
            using lambda_handler_query_raises [OF params passed] by simp
          with params passed Pair Inl show ?thesis by simp
        next
          case (Inr d)
          with Pair have q: "query state bucket tbl = (Inr d, tbl')" by simp
          have lh: "lambda_handler loads event tbl = (format_response d True, tbl')"
            using lambda_handler_query [OF params passed q] assms by simp
          show ?thesis
          proof (cases "dumps_raises d")
            case True
            with lh have "fst (lambda_handler loads event tbl) = Inl TypeError"
              by (simp add: format_response_def)
            with params passed q True show ?thesis by auto
          next
            case False
            with lh have "lambda_handler loads event tbl
                 = (Inr (Envelope 200 (Some cors_headers) d), tbl')"
              by (simp add: format_response_def)
            with params passed no t np ns no2 query_cases [OF q] show ?thesis
              by (simp; blast)
          qed
        qed
      qed
    qed
  qed
qed

theorem lambda_handler_api_gateway_status_witness:
  "is_api_gateway_event
     (JObj [(''body'', JObj [(''args'',
        JObj [(''state'', JStr ''OH''), (''bucket'', JStr ''stateBucket5'')])])])
   \<and> fst (lambda_handler (\<lambda>s. None)
        (JObj [(''body'', JObj [(''args'',
           JObj [(''state'', JStr ''OH''), (''bucket'', JStr ''stateBucket5'')])])])
        \<lparr>rows = [], fault = None, log = []\<rparr>)
      = Inr (Envelope 200 (Some cors_headers) (Error StateBucketRange))
   \<and> is_api_gateway_event (JObj [(''body'', JObj [(''name'', JStr ''get_names_bucket'')])])
   \<and> fst (lambda_handler (\<lambda>s. None)
        (JObj [(''body'', JObj [(''name'', JStr ''get_names_bucket'')])])
        \<lparr>rows = [], fault = None, log = []\<rparr>)
      = Inr (Envelope 400 None (Error InvalidRequestFormat))
   \<and> is_api_gateway_event
     (JObj [(''body'', JObj [(''args'',
        JObj [(''state'', JStr ''OH''), (''bucket'', JStr ''stateBucket1'')])])])
   \<and> fst (get_item \<lparr>rows = [], fault = Some (ClientError ''Throttled''), log = []\<rparr> (JStr ''OH''))
      = Inl (ClientError ''Throttled'')
   \<and> fst (lambda_handler (\<lambda>s. None)
        (JObj [(''body'', JObj [(''args'',
           JObj [(''state'', JStr ''OH''), (''bucket'', JStr ''stateBucket1'')])])])
        \<lparr>rows = [], fault = Some (ClientError ''Throttled''), log = []\<rparr>)
      = Inr (Envelope 200 (Some cors_headers) (Error (StoreError ''Throttled'')))"
proof -
  let ?e1 = "JObj [(''body'', JObj [(''args'',
        JObj [(''state'', JStr ''OH''), (''bucket'', JStr ''stateBucket5'')])])]"
  let ?e2 = "JObj [(''body'', JObj [(''name'', JStr ''get_names_bucket'')])]"
  let ?e3 = "JObj [(''body'', JObj [(''args'',
        JObj [(''state'', JStr ''OH''), (''bucket'', JStr ''stateBucket1'')])])]"
  let ?t = "\<lparr>rows = [], fault = None, log = []\<rparr>"
  let ?tf = "\<lparr>rows = [], fault = Some (ClientError ''Throttled''), log = []\<rparr>"
  have a1: "is_api_gateway_event ?e1" and a2: "is_api_gateway_event ?e2"
    and a3: "is_api_gateway_event ?e3"
    by (simp_all add: is_api_gateway_event_def)
  have x1: "extract_params (\<lambda>s. None) ?e1
              = Inr (Params (JStr ''OH'') (JStr (''stateBucket'' @ ''5'')))"
    and x3: "extract_params (\<lambda>s. None) ?e3
              = Inr (Params (JStr ''OH'') (JStr ''stateBucket1''))"
    by (simp_all add: extract_params_def is_api_gateway_event_def decoded_body_def
        extract_body_def args_shape_def)
  have v3: "validate (JStr ''OH'') (JStr ''stateBucket1'') = Inr None"
    by (simp add: validate_def py_int_small)
  have g3: "fst (get_item ?tf (JStr ''OH'')) = Inl (ClientError ''Throttled'')"
    by (simp add: get_item_def)
  have r1: "fst (lambda_handler (\<lambda>s. None) ?e1 ?t)
              = Inr (Envelope 200 (Some cors_headers) (Error StateBucketRange))"
    using lambda_handler_state_bucket_range [OF x1, of 5 ?t] a1
    by (simp add: py_int_small format_response_error)
  have r2: "fst (lambda_handler (\<lambda>s. None) ?e2 ?t)
              = Inr (Envelope 400 None (Error InvalidRequestFormat))"
    by (simp add: lambda_handler_def extract_params_def is_api_gateway_event_def decoded_body_def
        extract_body_def args_shape_def tool_call_shape_def)
  have r3: "fst (lambda_handler (\<lambda>s. None) ?e3 ?tf)
              = Inr (Envelope 200 (Some cors_headers) (Error (StoreError ''Throttled'')))"
    using lambda_handler_query [OF x3 v3 query_client_error [OF g3]] a3
    by (simp add: format_response_error)
  from lambda_handler_api_gateway_status [OF a1, of "\<lambda>s. None" ?t]
       lambda_handler_api_gateway_status [OF a2, of "\<lambda>s. None" ?t]
       lambda_handler_api_gateway_status [OF a3, of "\<lambda>s. None" ?tf]
       a1 a2 a3 g3 r1 r2 r3
  show ?thesis by simp
qed

text \<open>
  C10 (the scan does not interfere): the international buckets computed for a state
  are the same whatever \<open>existing_names\<close> is passed and whatever the table holds, and
  two successful runs of \<open>process_state_file\<close> on the same file and international
  names store the same item for the state, whatever the tables and \<open>existing_names\<close>
  they started from.
\<close>

theorem process_state_file_ignores_existing_names:
  "fst (international_buckets_for nbs intl ex tbl) = fst (international_buckets_for nbs intl ex' tbl')
   \<and> (process_state_file p ls intl ex tbl = Inr t \<and> process_state_file p ls intl ex' tbl' = Inr t'
        \<longrightarrow> map_of (rows t) (state_of_path p) = map_of (rows t') (state_of_path p))"
proof -
  from process_state_file_rows [of p ls intl]
  obtain item where run: "\<And>ex tbl t. process_state_file p ls intl ex tbl = Inr t \<Longrightarrow>
     rows t = AList.update (state_of_path p) item (rows tbl)"
    by blast
  have "map_of (rows t) (state_of_path p) = map_of (rows t') (state_of_path p)"
    if "process_state_file p ls intl ex tbl = Inr t" "process_state_file p ls intl ex' tbl' = Inr t'"
    using run [OF that(1)] run [OF that(2)] by (simp add: update_conv')
  with international_buckets_for_independent [of nbs intl ex tbl ex' tbl'] show ?thesis by blast
qed

theorem process_state_file_ignores_existing_names_witness:
  "process_state_file ''data/states/OH.TXT'' [''OH,F,1960,Mary,10'', ''OH,M,2000,John,12'']
         (Some [''Yuki'', ''John'']) None \<lparr>rows = [], fault = None, log = []\<rparr>
       = Inr \<lparr>rows = [(''OH'', oh_item)], fault = None, log = [Scan, PutItem ''OH'']\<rparr>
   \<and> process_state_file ''data/states/OH.TXT'' [''OH,F,1960,Mary,10'', ''OH,M,2000,John,12'']
         (Some [''Yuki'', ''John'']) (Some {''Yuki''})
         \<lparr>rows = [(''TX'', [(''State'', S ''TX''), (''stateBucket1'', L [''Yuki''])])],
           fault = None, log = []\<rparr>
       = Inr \<lparr>rows = [(''TX'', [(''State'', S ''TX''), (''stateBucket1'', L [''Yuki''])]),
                       (''OH'', oh_item)], fault = None, log = [PutItem ''OH'']\<rparr>
   \<and> map_of [(''OH'', oh_item)] ''OH''
       = map_of [(''TX'', [(''State'', S ''TX''), (''stateBucket1'', L [''Yuki''])]), (''OH'', oh_item)] ''OH''"
  using process_state_file_ignores_existing_names
         [of "[]" "Some [''Yuki'', ''John'']" None "\<lparr>rows = [], fault = None, log = []\<rparr>"
             "Some {''Yuki''}"
             "\<lparr>rows = [(''TX'', [(''State'', S ''TX''), (''stateBucket1'', L [''Yuki''])])],
               fault = None, log = []\<rparr>"
             "''data/states/OH.TXT''" "[''OH,F,1960,Mary,10'', ''OH,M,2000,John,12'']"
             "\<lparr>rows = [(''OH'', oh_item)], fault = None, log = [Scan, PutItem ''OH'']\<rparr>"
             "\<lparr>rows = [(''TX'', [(''State'', S ''TX''), (''stateBucket1'', L [''Yuki''])]),
                       (''OH'', oh_item)], fault = None, log = [PutItem ''OH'']\<rparr>"]
        process_state_file_example process_state_file_example_other_table
  by simp

end
